theory Spec2Isabelle
  imports Complex_Main "HOL-Library.Word"
begin

section \<open>Exceptions\<close>

text \<open>
  Every Python exception the modelled code can raise is a value; a function that may
  raise returns \<open>exn + 'a\<close>, with \<open>Inl\<close> for the exception.
\<close>

datatype exn =
    NamespaceError | IndexError | ValueError | KeyError
  | DuplicateFieldError | UnknownFieldError | OtherError string

section \<open>numpy: dtypes, scalars, casts, in-place addition\<close>

text \<open>
  The dtypes are the ones the source names: \<open>np.bool\<close>, \<open>np.int\<close>, \<open>np.float32\<close>,
  \<open>np.float\<close> and \<open>np.complex\<close>. An integer is 64 bits wide and wraps. A
  floating-point number is either NaN or a number; numbers are exact rationals, so
  rounding and infinities are outside the model. No theorem below depends on the sum
  of two numbers of a floating-point dtype. A complex number is its real and its
  imaginary part.
\<close>

datatype dtype = np_bool | np_int | np_float32 | np_float | np_complex

datatype flt = NaN | Fin rat

datatype scalar = VBool bool | VInt "64 word" | VFloat flt | VComplex flt flt

definition trunc :: "rat \<Rightarrow> int" where
  "trunc r = (if 0 \<le> r then \<lfloor>r\<rfloor> else \<lceil>r\<rceil>)"

fun flt_nonzero :: "flt \<Rightarrow> bool" where
  "flt_nonzero NaN = True"
| "flt_nonzero (Fin r) = (r \<noteq> 0)"

text \<open>
  The casts between the kinds, as C does them: anything but zero is true (NaN too); a
  number becomes an integer by truncation, and NaN or a number out of range becomes the
  smallest integer (what the conversion yields on x86-64); the cast of a complex number
  to a real kind keeps the real part.
\<close>

fun flt_to_int :: "flt \<Rightarrow> 64 word" where
  "flt_to_int NaN = - (2 ^ 63)"
| "flt_to_int (Fin r) =
     (if - (2 ^ 63) \<le> trunc r \<and> trunc r < 2 ^ 63 then word_of_int (trunc r) else - (2 ^ 63))"

fun to_bool :: "scalar \<Rightarrow> bool" where
  "to_bool (VBool b) = b"
| "to_bool (VInt i) = (i \<noteq> 0)"
| "to_bool (VFloat f) = flt_nonzero f"
| "to_bool (VComplex a b) = (flt_nonzero a \<or> flt_nonzero b)"

fun to_int :: "scalar \<Rightarrow> 64 word" where
  "to_int (VBool b) = (if b then 1 else 0)"
| "to_int (VInt i) = i"
| "to_int (VFloat f) = flt_to_int f"
| "to_int (VComplex a b) = flt_to_int a"

fun to_float :: "scalar \<Rightarrow> flt" where
  "to_float (VBool b) = Fin (if b then 1 else 0)"
| "to_float (VInt i) = Fin (of_int (sint i))"
| "to_float (VFloat f) = f"
| "to_float (VComplex a b) = a"

fun to_complex :: "scalar \<Rightarrow> flt \<times> flt" where
  "to_complex (VComplex a b) = (a, b)"
| "to_complex x = (to_float x, Fin 0)"

text \<open>\<open>dtype(x)\<close> and the elements of \<open>a.astype(dtype)\<close>.\<close>

fun astype_scalar :: "dtype \<Rightarrow> scalar \<Rightarrow> scalar" where
  "astype_scalar np_bool x = VBool (to_bool x)"
| "astype_scalar np_int x = VInt (to_int x)"
| "astype_scalar np_float32 x = VFloat (to_float x)"
| "astype_scalar np_float x = VFloat (to_float x)"
| "astype_scalar np_complex x = VComplex (fst (to_complex x)) (snd (to_complex x))"

fun fadd :: "flt \<Rightarrow> flt \<Rightarrow> flt" where
  "fadd NaN y = NaN"
| "fadd (Fin a) NaN = NaN"
| "fadd (Fin a) (Fin b) = Fin (a + b)"

text \<open>
  \<open>x += y\<close> on elements of an array of the given dtype: logical or on booleans,
  wrapping addition on integers, NaN-propagating addition on floating-point and
  complex numbers.
\<close>

fun iadd_scalar :: "dtype \<Rightarrow> scalar \<Rightarrow> scalar \<Rightarrow> scalar" where
  "iadd_scalar np_bool x y = VBool (to_bool x \<or> to_bool y)"
| "iadd_scalar np_int x y = VInt (to_int x + to_int y)"
| "iadd_scalar np_float32 x y = VFloat (fadd (to_float x) (to_float y))"
| "iadd_scalar np_float x y = VFloat (fadd (to_float x) (to_float y))"
| "iadd_scalar np_complex x y =
     VComplex (fadd (fst (to_complex x)) (fst (to_complex y)))
              (fadd (snd (to_complex x)) (snd (to_complex y)))"

text \<open>\<open>row += column\<close> on two rows of the same width.\<close>

definition iadd_row :: "dtype \<Rightarrow> scalar list \<Rightarrow> scalar list \<Rightarrow> scalar list" where
  "iadd_row dt row column = map2 (iadd_scalar dt) row column"

text \<open>
  A two-dimensional array: its rows, and its second dimension (which an array with no
  rows still has). Every row of a numpy array has \<open>shape1\<close> elements.
\<close>

record array2 =
  shape1 :: nat
  rows :: "scalar list list"

definition astype :: "array2 \<Rightarrow> dtype \<Rightarrow> array2" where
  "astype a dt = a\<lparr>rows := map (map (astype_scalar dt)) (rows a)\<rparr>"

text \<open>\<open>np.ones((n, m))\<close> and \<open>np.zeros((n, m))\<close>: arrays of \<open>np.float\<close>.\<close>

definition np_ones :: "nat \<Rightarrow> nat \<Rightarrow> array2" where
  "np_ones n m = \<lparr>shape1 = m, rows = replicate n (replicate m (VFloat (Fin 1)))\<rparr>"

definition np_zeros :: "nat \<Rightarrow> nat \<Rightarrow> array2" where
  "np_zeros n m = \<lparr>shape1 = m, rows = replicate n (replicate m (VFloat (Fin 0)))\<rparr>"

text \<open>
  \<open>a[i]\<close> on an axis of length \<open>n\<close>: a negative index counts from the end, an index
  outside \<open>-n .. n-1\<close> raises IndexError.
\<close>

definition getitem_index :: "nat \<Rightarrow> int \<Rightarrow> exn + nat" where
  "getitem_index n i =
     (if 0 \<le> i \<and> i < int n then Inr (nat i)
      else if - int n \<le> i \<and> i < 0 then Inr (nat (i + int n))
      else Inl IndexError)"

text \<open>
  \<open>a[start:stop]\<close> on an axis of length \<open>n\<close>: a negative bound counts from the end,
  both bounds are clipped to \<open>0 .. n\<close>, and nothing raises. The slice holds the
  positions \<open>k\<close> with \<open>fst \<le> k < snd\<close>.
\<close>

definition slice_clip :: "nat \<Rightarrow> int \<Rightarrow> nat" where
  "slice_clip n i = (if i < 0 then nat (max (i + int n) 0) else nat (min i (int n)))"

definition slice_indices :: "nat \<Rightarrow> int \<Rightarrow> int \<Rightarrow> nat \<times> nat" where
  "slice_indices n start stop = (slice_clip n start, slice_clip n stop)"

definition in_slice :: "nat \<Rightarrow> int \<Rightarrow> int \<Rightarrow> nat \<Rightarrow> bool" where
  "in_slice n start stop k =
     (fst (slice_indices n start stop) \<le> k \<and> k < snd (slice_indices n start stop))"

section \<open>librosa: the canonical time to frame function\<close>

text \<open>
  \<open>librosa.time_to_frames(times, sr, hop_length)\<close>: the time in seconds becomes a
  sample index (\<open>(times * sr).astype(int)\<close>, which truncates), and the sample index a
  frame index (\<open>samples // hop_length\<close>, which rounds down). Times are exact rationals
  here. The encoders below take the function as their first argument, so what is proved
  about them holds for any time to frame function.
\<close>

definition time_to_samples :: "rat \<Rightarrow> rat \<Rightarrow> int" where
  "time_to_samples t sr = trunc (t * sr)"

definition samples_to_frames :: "int \<Rightarrow> int \<Rightarrow> int" where
  "samples_to_frames samples hop_length = samples div hop_length"

definition time_to_frames :: "rat \<Rightarrow> rat \<Rightarrow> int \<Rightarrow> int" where
  "time_to_frames t sr hop_length = samples_to_frames (time_to_samples t sr) hop_length"

section \<open>pumpp.task.base\<close>

subsection \<open>fill_value\<close>

text \<open>\<open>np.issubdtype(dtype, np.float)\<close> and \<open>np.issubdtype(dtype, np.complex)\<close>.\<close>

definition issubdtype_float :: "dtype \<Rightarrow> bool" where
  "issubdtype_float dt = (dt = np_float32 \<or> dt = np_float)"

definition issubdtype_complex :: "dtype \<Rightarrow> bool" where
  "issubdtype_complex dt = (dt = np_complex)"

definition fill_value :: "dtype \<Rightarrow> scalar" where
  "fill_value dtype =
     (if issubdtype_float dtype \<or> issubdtype_complex dtype
      then astype_scalar dtype (VFloat NaN)
      else astype_scalar dtype (VInt 0))"

subsection \<open>BaseTaskTransformer\<close>

record transformer =
  name :: string
  namespace :: string
  sr :: rat
  hop_length :: int

type_synonym ttf = "rat \<Rightarrow> rat \<Rightarrow> int \<Rightarrow> int"

text \<open>
  \<open>np.empty((n_total, m), dtype)\<close> followed by \<open>target.fill(v)\<close>; a negative dimension
  raises ValueError.
\<close>

definition np_empty_fill :: "int \<Rightarrow> nat \<Rightarrow> scalar \<Rightarrow> exn + scalar list list" where
  "np_empty_fill n_total m v =
     (if n_total < 0 then Inl ValueError else Inr (replicate (nat n_total) (replicate m v)))"

text \<open>The loop \<open>for column, event in zip(values, frames): target[event] += column\<close>.\<close>

fun events_loop :: "dtype \<Rightarrow> scalar list list \<Rightarrow> (scalar list \<times> int) list \<Rightarrow> exn + scalar list list" where
  "events_loop dt target [] = Inr target"
| "events_loop dt target ((column, event) # rest) =
     (case getitem_index (length target) event of
        Inl e \<Rightarrow> Inl e
      | Inr k \<Rightarrow> events_loop dt (target[k := iadd_row dt (target ! k) column]) rest)"

definition encode_events :: "ttf \<Rightarrow> transformer \<Rightarrow> rat \<Rightarrow> rat list \<Rightarrow> array2 \<Rightarrow> dtype \<Rightarrow> exn + array2" where
  "encode_events ttf self duration events values dtype =
     (let frames = map (\<lambda>t. ttf t (sr self) (hop_length self)) events;
          n_total = ttf duration (sr self) (hop_length self)
      in case np_empty_fill n_total (shape1 values) (fill_value dtype) of
           Inl e \<Rightarrow> Inl e
         | Inr target \<Rightarrow>
             (case events_loop dtype target (zip (rows (astype values dtype)) frames) of
                Inl e \<Rightarrow> Inl e
              | Inr target' \<Rightarrow> Inr \<lparr>shape1 = shape1 values, rows = target'\<rparr>))"

text \<open>
  \<open>target[start:stop] += column\<close>: the column is added to every row of the slice.
\<close>

definition iadd_slice :: "dtype \<Rightarrow> scalar list list \<Rightarrow> int \<Rightarrow> int \<Rightarrow> scalar list \<Rightarrow> scalar list list" where
  "iadd_slice dt target start stop column =
     map (\<lambda>(k, row). if in_slice (length target) start stop k then iadd_row dt row column else row)
         (zip [0 ..< length target] target)"

text \<open>The loop \<open>for column, interval in zip(values, frames): target[interval[0]:interval[1]] += column\<close>.\<close>

fun intervals_loop :: "dtype \<Rightarrow> scalar list list \<Rightarrow> (scalar list \<times> int \<times> int) list \<Rightarrow> scalar list list" where
  "intervals_loop dt target [] = target"
| "intervals_loop dt target ((column, interval) # rest) =
     intervals_loop dt (iadd_slice dt target (fst interval) (snd interval) column) rest"

definition encode_intervals :: "ttf \<Rightarrow> transformer \<Rightarrow> rat \<Rightarrow> (rat \<times> rat) list \<Rightarrow> array2 \<Rightarrow> dtype \<Rightarrow> exn + array2" where
  "encode_intervals ttf self duration intervals values dtype =
     (let frames = map (\<lambda>(a, b). (ttf a (sr self) (hop_length self), ttf b (sr self) (hop_length self))) intervals;
          n_total = ttf duration (sr self) (hop_length self);
          values' = astype values dtype
      in case np_empty_fill n_total (shape1 values') (fill_value dtype) of
           Inl e \<Rightarrow> Inl e
         | Inr target \<Rightarrow>
             Inr \<lparr>shape1 = shape1 values', rows = intervals_loop dtype target (zip (rows values') frames)\<rparr>)"


section \<open>jams: annotations and containers\<close>

text \<open>
  An observation of an annotation (its confidence is left out), an annotation, and the
  container of a track's annotations with the track's duration. An annotation whose
  \<open>time\<close> or \<open>duration\<close> is \<open>None\<close> spans the whole track.
\<close>

record 'v observation =
  obs_time :: rat
  obs_duration :: rat
  obs_value :: 'v

record 'v annotation =
  ann_namespace :: string
  ann_data :: "'v observation list"
  ann_time :: "rat option"
  ann_duration :: "rat option"

record 'v jams =
  annotations :: "'v annotation list"
  file_metadata_duration :: rat

text \<open>\<open>ann.data.to_interval_values()\<close>: the intervals \<open>[time, time + duration]\<close> and the values.\<close>

definition to_interval_values :: "'v annotation \<Rightarrow> (rat \<times> rat) list \<times> 'v list" where
  "to_interval_values ann =
     (map (\<lambda>ob. (obs_time ob, obs_time ob + obs_duration ob)) (ann_data ann),
      map obs_value (ann_data ann))"

subsection \<open>BaseTaskTransformer.empty and BaseTaskTransformer.transform\<close>

text \<open>
  \<open>BaseTaskTransformer.empty(duration)\<close> returns
  \<open>jams.Annotation(namespace=self.namespace, time=0, duration=0)\<close>, an annotation with no
  observations; the argument is not used.
\<close>

definition empty_annotation :: "transformer \<Rightarrow> rat \<Rightarrow> 'v annotation" where
  "empty_annotation self duration =
     \<lparr>ann_namespace = namespace self, ann_data = [], ann_time = Some 0, ann_duration = Some 0\<rparr>"

text \<open>
  The value of a key of a transformed annotation: an array, a boolean flag, or the
  frame indices of \<open>_valid\<close>.
\<close>

datatype pyval = Array array2 | Flag bool | Frames "int list"

type_synonym data = "string \<rightharpoonup> pyval"

text \<open>
  The loop that collects the convertible annotations. \<open>jams.nsconvert.convert\<close> is
  the parameter \<open>convert\<close>; only its NamespaceError is caught.
\<close>

fun convert_loop ::
  "('v annotation \<Rightarrow> string \<Rightarrow> exn + 'v annotation) \<Rightarrow> transformer \<Rightarrow>
   'v annotation list \<Rightarrow> 'v annotation list \<Rightarrow> exn + 'v annotation list" where
  "convert_loop convert self anns [] = Inr anns"
| "convert_loop convert self anns (ann # rest) =
     (case convert ann (namespace self) of
        Inr a \<Rightarrow> convert_loop convert self (anns @ [a]) rest
      | Inl e \<Rightarrow> if e = NamespaceError then convert_loop convert self anns rest else Inl e)"

text \<open>
  The loop that transforms each annotation and attaches its \<open>_valid\<close> range. The hook
  \<open>self.transform_annotation\<close> of the subclass is the parameter \<open>transform_annotation\<close>.
\<close>

fun transform_loop ::
  "ttf \<Rightarrow> ('v annotation \<Rightarrow> rat \<Rightarrow> exn + data) \<Rightarrow> transformer \<Rightarrow> rat \<Rightarrow>
   data list \<Rightarrow> 'v annotation list \<Rightarrow> exn + data list" where
  "transform_loop ttf transform_annotation self duration results [] = Inr results"
| "transform_loop ttf transform_annotation self duration results (ann # rest) =
     (case transform_annotation ann duration of
        Inl e \<Rightarrow> Inl e
      | Inr d \<Rightarrow>
          (let valid = (if ann_time ann = None \<or> ann_duration ann = None
                        then [0, duration]
                        else [the (ann_time ann), the (ann_time ann) + the (ann_duration ann)])
           in transform_loop ttf transform_annotation self duration
                (results @ [d(''_valid'' \<mapsto> Frames (map (\<lambda>t. ttf t (sr self) (hop_length self)) valid))])
                rest))"

text \<open>
  \<open>transform(jam, query)\<close>. A query that is given and not empty (\<open>Some q\<close>) narrows the
  candidates through \<open>jam.search\<close>, the parameter \<open>search\<close>; with no query every
  annotation of the container is a candidate. \<open>merge\<close> is the method inherited from
  \<open>Scope\<close>, a parameter as well.
\<close>

definition candidates :: "('v jams \<Rightarrow> 'q \<Rightarrow> 'v annotation list) \<Rightarrow> 'v jams \<Rightarrow> 'q option \<Rightarrow> 'v annotation list" where
  "candidates search jam query = (case query of Some q \<Rightarrow> search jam q | None \<Rightarrow> annotations jam)"

definition transform ::
  "ttf \<Rightarrow> ('v annotation \<Rightarrow> string \<Rightarrow> exn + 'v annotation) \<Rightarrow>
   ('v jams \<Rightarrow> 'q \<Rightarrow> 'v annotation list) \<Rightarrow>
   ('v annotation \<Rightarrow> rat \<Rightarrow> exn + data) \<Rightarrow> (transformer \<Rightarrow> data list \<Rightarrow> 'out) \<Rightarrow>
   transformer \<Rightarrow> 'v jams \<Rightarrow> 'q option \<Rightarrow> exn + 'out" where
  "transform ttf convert search transform_annotation merge self jam query =
     (case convert_loop convert self [] (candidates search jam query) of
        Inl e \<Rightarrow> Inl e
      | Inr anns \<Rightarrow>
          (let duration = file_metadata_duration jam;
               anns' = (if anns = [] then [empty_annotation self duration] else anns)
           in case transform_loop ttf transform_annotation self duration [] anns' of
                Inl e \<Rightarrow> Inl e
              | Inr results \<Rightarrow> Inr (merge self results)))"

section \<open>pumpp.task.event: BeatTransformer\<close>

text \<open>
  The value of a beat observation is a number or \<open>None\<close>. \<open>encode_events\<close> is called
  with its default dtype, \<open>np.bool\<close>.
\<close>

definition beat_transform_annotation ::
  "ttf \<Rightarrow> transformer \<Rightarrow> (rat option) annotation \<Rightarrow> rat \<Rightarrow> exn + data" where
  "beat_transform_annotation ttf self ann duration =
     (let (intervals, values) = to_interval_values ann;
          beat_events = map fst intervals;
          beat_labels = np_ones (length beat_events) 1;
          idx = map (\<lambda>v. v = Some 1) values;
          (downbeat_events, downbeat_labels, mask_downbeat) =
            (if list_ex id idx
             then (let downbeat_events = map fst (filter snd (zip beat_events idx))
                   in (downbeat_events, np_ones (length downbeat_events) 1, True))
             else ([], np_zeros 0 1, False))
      in case encode_events ttf self duration beat_events beat_labels np_bool of
           Inl e \<Rightarrow> Inl e
         | Inr target_beat \<Rightarrow>
             (case encode_events ttf self duration downbeat_events downbeat_labels np_bool of
                Inl e \<Rightarrow> Inl e
              | Inr target_downbeat \<Rightarrow>
                  Inr [''beat'' \<mapsto> Array target_beat,
                       ''downbeat'' \<mapsto> Array target_downbeat,
                       ''mask_downbeat'' \<mapsto> Flag mask_downbeat]))"


section \<open>pumpp.feature.fft\<close>

subsection \<open>The field schema\<close>

record field =
  field_shape :: "int option list"
  field_dtype :: dtype

type_synonym schema = "string \<rightharpoonup> field"

text \<open>
  Modelled from the spec: \<open>Scope.register\<close> and \<open>Scope.pop\<close> of \<open>pumpp/base.py\<close>, which
  is not among the sources. \<open>register(name, shape, dtype)\<close> adds a field and fails with
  DuplicateFieldError if the name exists; \<open>pop(name)\<close> removes a field and returns its
  prior descriptor, and fails with UnknownFieldError if the name is absent.
\<close>

definition register :: "schema \<Rightarrow> string \<Rightarrow> int option list \<Rightarrow> dtype \<Rightarrow> exn + schema" where
  "register fs field shape dtype =
     (if field \<in> dom fs then Inl DuplicateFieldError
      else Inr (fs(field \<mapsto> \<lparr>field_shape = shape, field_dtype = dtype\<rparr>)))"

definition pop :: "schema \<Rightarrow> string \<Rightarrow> exn + field \<times> schema" where
  "pop fs field =
     (case fs field of None \<Rightarrow> Inl UnknownFieldError | Some d \<Rightarrow> Inr (d, fs(field := None)))"

subsection \<open>The constructors\<close>

record extractor =
  fx_name :: string
  fx_sr :: rat
  fx_hop_length :: int
  n_fft :: int
  fx_fields :: schema

text \<open>
  Modelled from the spec: \<open>FeatureExtractor.__init__\<close> of \<open>pumpp/feature/base.py\<close>, which
  is not among the sources, leaves a producer with no field declared; \<open>STFT.__init__\<close>
  then stores \<open>n_fft\<close> and registers \<open>mag\<close> and \<open>phase\<close>.
\<close>

definition STFT_init :: "string \<Rightarrow> rat \<Rightarrow> int \<Rightarrow> int \<Rightarrow> exn + extractor" where
  "STFT_init nm sr' hop n =
     (let self = \<lparr>fx_name = nm, fx_sr = sr', fx_hop_length = hop, n_fft = n, fx_fields = Map.empty\<rparr>
      in case register (fx_fields self) ''mag'' [None, Some (1 + n div 2)] np_float32 of
           Inl e \<Rightarrow> Inl e
         | Inr fs \<Rightarrow>
             (case register fs ''phase'' [None, Some (1 + n div 2)] np_float32 of
                Inl e \<Rightarrow> Inl e
              | Inr fs' \<Rightarrow> Inr (self\<lparr>fx_fields := fs'\<rparr>)))"

definition STFTPhaseDiff_init :: "string \<Rightarrow> rat \<Rightarrow> int \<Rightarrow> int \<Rightarrow> exn + extractor" where
  "STFTPhaseDiff_init nm sr' hop n =
     (case STFT_init nm sr' hop n of
        Inl e \<Rightarrow> Inl e
      | Inr self \<Rightarrow>
          (case pop (fx_fields self) ''phase'' of
             Inl e \<Rightarrow> Inl e
           | Inr (phase_field, fs) \<Rightarrow>
               (case register fs ''dphase'' (field_shape phase_field) (field_dtype phase_field) of
                  Inl e \<Rightarrow> Inl e
                | Inr fs' \<Rightarrow> Inr (self\<lparr>fx_fields := fs'\<rparr>))))"

definition STFTMag_init :: "string \<Rightarrow> rat \<Rightarrow> int \<Rightarrow> int \<Rightarrow> exn + extractor" where
  "STFTMag_init nm sr' hop n =
     (case STFT_init nm sr' hop n of
        Inl e \<Rightarrow> Inl e
      | Inr self \<Rightarrow>
          (case pop (fx_fields self) ''phase'' of
             Inl e \<Rightarrow> Inl e
           | Inr (phase_field, fs) \<Rightarrow> Inr (self\<lparr>fx_fields := fs\<rparr>)))"

subsection \<open>transform_audio\<close>

text \<open>
  The signal processing is outside the repository: \<open>stft_magphase\<close> is
  \<open>librosa.magphase(librosa.stft(y, hop_length, n_fft, dtype=np.float32))\<close>, which may
  raise; \<open>transpose\<close> is \<open>.T\<close>, \<open>angle\<close> is \<open>np.angle\<close>. \<open>phase_diff\<close> is the helper of
  \<open>pumpp/feature/base.py\<close>, taken as given.
\<close>

record ('y, 'a) dsp =
  stft_magphase :: "'y \<Rightarrow> int \<Rightarrow> int \<Rightarrow> exn + 'a \<times> 'a"
  transpose :: "'a \<Rightarrow> 'a"
  angle :: "'a \<Rightarrow> 'a"
  phase_diff :: "'a \<Rightarrow> nat \<Rightarrow> 'a"

text \<open>\<open>d.pop(key)\<close> on a dictionary: the value and the dictionary without the key, or KeyError.\<close>

definition dict_pop :: "('k \<rightharpoonup> 'a) \<Rightarrow> 'k \<Rightarrow> exn + 'a \<times> ('k \<rightharpoonup> 'a)" where
  "dict_pop d k = (case d k of None \<Rightarrow> Inl KeyError | Some v \<Rightarrow> Inr (v, d(k := None)))"

definition STFT_transform_audio :: "('y, 'a) dsp \<Rightarrow> extractor \<Rightarrow> 'y \<Rightarrow> exn + (string \<rightharpoonup> 'a)" where
  "STFT_transform_audio lib self y =
     (case stft_magphase lib y (fx_hop_length self) (n_fft self) of
        Inl e \<Rightarrow> Inl e
      | Inr (mag, phase) \<Rightarrow>
          Inr [''mag'' \<mapsto> transpose lib mag, ''phase'' \<mapsto> angle lib (transpose lib phase)])"

definition STFTPhaseDiff_transform_audio :: "('y, 'a) dsp \<Rightarrow> extractor \<Rightarrow> 'y \<Rightarrow> exn + (string \<rightharpoonup> 'a)" where
  "STFTPhaseDiff_transform_audio lib self y =
     (case STFT_transform_audio lib self y of
        Inl e \<Rightarrow> Inl e
      | Inr data \<Rightarrow>
          (case dict_pop data ''phase'' of
             Inl e \<Rightarrow> Inl e
           | Inr (phase, data') \<Rightarrow> Inr (data'(''dphase'' \<mapsto> phase_diff lib phase 0))))"

definition STFTMag_transform_audio :: "('y, 'a) dsp \<Rightarrow> extractor \<Rightarrow> 'y \<Rightarrow> exn + (string \<rightharpoonup> 'a)" where
  "STFTMag_transform_audio lib self y =
     (case STFT_transform_audio lib self y of
        Inl e \<Rightarrow> Inl e
      | Inr data \<Rightarrow>
          (case dict_pop data ''phase'' of
             Inl e \<Rightarrow> Inl e
           | Inr (phase, data') \<Rightarrow> Inr data'))"

section \<open>Auxiliary definitions for the statements\<close>

text \<open>\<open>np.isnan\<close> on a scalar: a complex number is NaN when either part is.\<close>

fun isnan :: "scalar \<Rightarrow> bool" where
  "isnan (VFloat f) = (f = NaN)"
| "isnan (VComplex a b) = (a = NaN \<or> b = NaN)"
| "isnan x = False"

text \<open>
  The real part of a scalar is NaN. An entry of this kind stays of this kind under
  \<open>+=\<close>, whatever is added.
\<close>

definition real_nan :: "scalar \<Rightarrow> bool" where
  "real_nan x = (fst (to_complex x) = NaN)"

text \<open>
  \<open>BeatTransformer(name, sr, hop_length)\<close>: the attributes the constructor stores; its
  namespace is \<open>beat\<close>.
\<close>

definition BeatTransformer :: "string \<Rightarrow> rat \<Rightarrow> int \<Rightarrow> transformer" where
  "BeatTransformer nm sr' hop = \<lparr>name = nm, namespace = ''beat'', sr = sr', hop_length = hop\<rparr>"

text \<open>
  Instances of the parameters for the concrete scenarios: a converter that accepts
  exactly the annotations of the target namespace, a search that returns every
  annotation, and a merge that hands back the per-annotation records unchanged.
\<close>

definition convert_same :: "'v annotation \<Rightarrow> string \<Rightarrow> exn + 'v annotation" where
  "convert_same ann ns = (if ann_namespace ann = ns then Inr ann else Inl NamespaceError)"

definition search_all :: "'v jams \<Rightarrow> unit \<Rightarrow> 'v annotation list" where
  "search_all jam q = annotations jam"

definition merge_results :: "transformer \<Rightarrow> data list \<Rightarrow> data list" where
  "merge_results self results = results"

text \<open>
  A stand-in for the signal processing library in the concrete instances: audio and
  arrays are lists of integers, and an empty buffer is refused.
\<close>

definition stub_dsp :: "(int list, int list) dsp" where
  "stub_dsp =
     \<lparr>stft_magphase = (\<lambda>y hop n. if y = [] then Inl ValueError else Inr (map abs y, map sgn y)),
      transpose = (\<lambda>a. a),
      angle = (\<lambda>a. a),
      phase_diff = (\<lambda>a axis. map2 (-) (tl a) a)\<rparr>"

section \<open>Properties of the two encoding loops\<close>

lemma iadd_slice_length [simp]: "length (iadd_slice dt target a b c) = length target"
  by (simp add: iadd_slice_def)

lemma iadd_slice_nth:
  "k < length target \<Longrightarrow>
   iadd_slice dt target a b c ! k =
     (if in_slice (length target) a b k then iadd_row dt (target ! k) c else target ! k)"
  by (simp add: iadd_slice_def)

lemma intervals_loop_length [simp]: "length (intervals_loop dt target zs) = length target"
  by (induction zs arbitrary: target) auto

lemma intervals_loop_nth:
  "k < length target \<Longrightarrow>
   intervals_loop dt target zs ! k =
     foldl (iadd_row dt) (target ! k)
       (map fst (filter (\<lambda>z. in_slice (length target) (fst (snd z)) (snd (snd z)) k) zs))"
  by (induction zs arbitrary: target) (auto simp: iadd_slice_nth)

lemma getitem_index_less: "getitem_index n i = Inr j \<Longrightarrow> j < n"
  by (auto simp: getitem_index_def split: if_splits)

lemma getitem_index_Inl: "getitem_index n i = Inl e \<Longrightarrow> e = IndexError"
  by (auto simp: getitem_index_def split: if_splits)

lemma events_loop_length:
  "events_loop dt target zs = Inr t \<Longrightarrow> length t = length target"
  by (induction zs arbitrary: target) (auto split: sum.splits)

lemma events_loop_nth:
  "events_loop dt target zs = Inr t \<Longrightarrow> k < length target \<Longrightarrow>
   t ! k = foldl (iadd_row dt) (target ! k)
       (map fst (filter (\<lambda>z. getitem_index (length target) (snd z) = Inr k) zs))"
proof (induction zs arbitrary: target)
  case Nil
  then show ?case by simp
next
  case (Cons z zs)
  obtain c ev where z: "z = (c, ev)" by (cases z)
  from Cons.prems obtain j where j: "getitem_index (length target) ev = Inr j"
    and rest: "events_loop dt (target[j := iadd_row dt (target ! j) c]) zs = Inr t"
    by (auto simp: z split: sum.splits)
  have jl: "j < length target" using j by (rule getitem_index_less)
  show ?case using Cons.IH[OF rest] Cons.prems(2) j jl
    by (auto simp: z nth_list_update)
qed

lemma events_loop_Inl:
  "events_loop dt target zs = Inl e \<Longrightarrow> e = IndexError"
proof (induction zs arbitrary: target)
  case Nil
  then show ?case by simp
next
  case (Cons z zs)
  obtain c ev where z: "z = (c, ev)" by (cases z)
  show ?case
  proof (cases "getitem_index (length target) ev")
    case (Inl x)
    with Cons.prems getitem_index_Inl[OF Inl] show ?thesis by (simp add: z)
  next
    case (Inr j)
    with Cons.prems have "events_loop dt (target[j := iadd_row dt (target ! j) c]) zs = Inl e"
      by (simp add: z)
    from Cons.IH[OF this] show ?thesis .
  qed
qed

lemma events_loop_raises:
  "z \<in> set zs \<Longrightarrow> getitem_index (length target) (snd z) = Inl IndexError \<Longrightarrow>
   events_loop dt target zs = Inl IndexError"
proof (induction zs arbitrary: target)
  case Nil
  then show ?case by simp
next
  case (Cons y zs)
  obtain c ev where y: "y = (c, ev)" by (cases y)
  show ?case
  proof (cases "getitem_index (length target) ev")
    case (Inl x)
    with getitem_index_Inl[OF Inl] show ?thesis by (simp add: y)
  next
    case (Inr j)
    with Cons.prems y have "z \<in> set zs" by auto
    with Cons.IH[of "target[j := iadd_row dt (target ! j) c]"] Cons.prems(2) Inr
    show ?thesis by (simp add: y)
  qed
qed

lemma events_loop_returns:
  "\<forall>z \<in> set zs. \<exists>k. getitem_index (length target) (snd z) = Inr k \<Longrightarrow>
   \<exists>t. events_loop dt target zs = Inr t"
proof (induction zs arbitrary: target)
  case Nil
  then show ?case by simp
next
  case (Cons y zs)
  obtain c ev where y: "y = (c, ev)" by (cases y)
  from Cons.prems obtain j where j: "getitem_index (length target) ev = Inr j"
    by (auto simp: y)
  from Cons.prems have "\<forall>z \<in> set zs. \<exists>k. getitem_index (length (target[j := iadd_row dt (target ! j) c])) (snd z) = Inr k"
    by simp
  from Cons.IH[OF this] j show ?case by (simp add: y)
qed

lemma astype_simps [simp]:
  "shape1 (astype a dt) = shape1 a"
  "rows (astype a dt) = map (map (astype_scalar dt)) (rows a)"
  by (simp_all add: astype_def)

text \<open>What both encoders return, in terms of their loops.\<close>

lemma encode_events_Inr:
  assumes "encode_events ttf self duration events values dtype = Inr t"
  shows "0 \<le> ttf duration (sr self) (hop_length self)"
    and "shape1 t = shape1 values"
    and "events_loop dtype
           (replicate (nat (ttf duration (sr self) (hop_length self)))
              (replicate (shape1 values) (fill_value dtype)))
           (zip (map (map (astype_scalar dtype)) (rows values))
                (map (\<lambda>t. ttf t (sr self) (hop_length self)) events)) = Inr (rows t)"
  using assms
  by (auto simp: encode_events_def np_empty_fill_def Let_def split: if_splits sum.splits)

lemma encode_intervals_eq:
  "encode_intervals ttf self duration intervals values dtype =
     (if ttf duration (sr self) (hop_length self) < 0 then Inl ValueError
      else Inr \<lparr>shape1 = shape1 values,
                rows = intervals_loop dtype
                  (replicate (nat (ttf duration (sr self) (hop_length self)))
                     (replicate (shape1 values) (fill_value dtype)))
                  (zip (map (map (astype_scalar dtype)) (rows values))
                       (map (\<lambda>(a, b). (ttf a (sr self) (hop_length self), ttf b (sr self) (hop_length self))) intervals))\<rparr>)"
  by (simp add: encode_intervals_def np_empty_fill_def Let_def)

section \<open>Empty input\<close>

text \<open>
  Claim C6. With no events, and with no intervals, both encoders return an array of
  \<open>n_frames\<close> rows of \<open>m\<close> entries, every entry the fill value of the dtype; \<open>n_frames\<close>
  is the frame index of the duration and \<open>m\<close> the second dimension of the values. A
  negative frame count is refused by the allocation (ValueError).
\<close>

theorem encode_empty_input_all_fill:
  "encode_events ttf self duration [] values dtype =
     (if ttf duration (sr self) (hop_length self) < 0 then Inl ValueError
      else Inr \<lparr>shape1 = shape1 values,
                rows = replicate (nat (ttf duration (sr self) (hop_length self)))
                         (replicate (shape1 values) (fill_value dtype))\<rparr>)
   \<and> encode_intervals ttf self duration [] values dtype =
     (if ttf duration (sr self) (hop_length self) < 0 then Inl ValueError
      else Inr \<lparr>shape1 = shape1 values,
                rows = replicate (nat (ttf duration (sr self) (hop_length self)))
                         (replicate (shape1 values) (fill_value dtype))\<rparr>)"
  by (simp add: encode_events_def encode_intervals_eq np_empty_fill_def)

theorem encode_empty_input_all_fill_witness:
  "encode_events time_to_frames (BeatTransformer ''beat'' 22050 512) 5 [] (np_zeros 0 1) np_bool =
     Inr \<lparr>shape1 = 1, rows = replicate 215 [VBool False]\<rparr>
   \<and> encode_intervals time_to_frames (BeatTransformer ''beat'' 22050 512) 5 [] (np_zeros 0 3) np_float =
     Inr \<lparr>shape1 = 3, rows = replicate 215 [VFloat NaN, VFloat NaN, VFloat NaN]\<rparr>"
proof -
  have n: "time_to_frames 5 22050 512 = 215"
    by (simp add: time_to_frames_def time_to_samples_def samples_to_frames_def trunc_def)
  have r3: "replicate 3 (VFloat NaN) = [VFloat NaN, VFloat NaN, VFloat NaN]"
    by (simp add: numeral_3_eq_3)
  show ?thesis
    using encode_empty_input_all_fill [of time_to_frames "BeatTransformer ''beat'' 22050 512" 5 "np_zeros 0 1" np_bool]
      encode_empty_input_all_fill [of time_to_frames "BeatTransformer ''beat'' 22050 512" 5 "np_zeros 0 3" np_float]
    by (simp add: n r3 BeatTransformer_def np_zeros_def fill_value_def issubdtype_float_def
        issubdtype_complex_def)
qed

section \<open>The fill value\<close>

lemma fill_value_cases:
  "fill_value np_bool = VBool False"
  "fill_value np_int = VInt 0"
  "fill_value np_float32 = VFloat NaN"
  "fill_value np_float = VFloat NaN"
  "fill_value np_complex = VComplex NaN (Fin 0)"
  by (simp_all add: fill_value_def issubdtype_float_def issubdtype_complex_def)

text \<open>
  Claim C3. The fill value is NaN for a floating-point or complex dtype and zero for
  every other dtype, and a frame that no event lands on, or that no interval covers,
  holds the fill value in all its entries on return.
\<close>

theorem unobserved_frames_hold_fill_value:
  "fill_value dtype =
     (if issubdtype_float dtype then VFloat NaN
      else if issubdtype_complex dtype then VComplex NaN (Fin 0)
      else if dtype = np_bool then VBool False else VInt 0)
   \<and> (\<forall>t k. encode_events ttf self duration events values dtype = Inr t
        \<and> k < length (rows t)
        \<and> (\<forall>z \<in> set (zip (rows values) events).
              getitem_index (length (rows t)) (ttf (snd z) (sr self) (hop_length self)) \<noteq> Inr k)
        \<longrightarrow> rows t ! k = replicate (shape1 values) (fill_value dtype))
   \<and> (\<forall>t k. encode_intervals ttf self duration intervals values dtype = Inr t
        \<and> k < length (rows t)
        \<and> (\<forall>z \<in> set (zip (rows values) intervals).
              \<not> in_slice (length (rows t)) (ttf (fst (snd z)) (sr self) (hop_length self))
                   (ttf (snd (snd z)) (sr self) (hop_length self)) k)
        \<longrightarrow> rows t ! k = replicate (shape1 values) (fill_value dtype))"
proof (intro conjI allI impI)
  show "fill_value dtype =
     (if issubdtype_float dtype then VFloat NaN
      else if issubdtype_complex dtype then VComplex NaN (Fin 0)
      else if dtype = np_bool then VBool False else VInt 0)"
    by (cases dtype) (simp_all add: fill_value_cases issubdtype_float_def issubdtype_complex_def)
next
  fix t k
  let ?n = "nat (ttf duration (sr self) (hop_length self))"
  let ?f = "\<lambda>x. ttf x (sr self) (hop_length self)"
  let ?zs = "zip (map (map (astype_scalar dtype)) (rows values)) (map ?f events)"
  assume a: "encode_events ttf self duration events values dtype = Inr t
        \<and> k < length (rows t)
        \<and> (\<forall>z \<in> set (zip (rows values) events).
              getitem_index (length (rows t)) (ttf (snd z) (sr self) (hop_length self)) \<noteq> Inr k)"
  note loop = encode_events_Inr(3)[OF a[THEN conjunct1]]
  have len: "length (rows t) = ?n" using events_loop_length[OF loop] by simp
  have zs: "?zs = map (\<lambda>(c, e). (map (astype_scalar dtype) c, ?f e)) (zip (rows values) events)"
    by (simp add: zip_map_map)
  have none: "filter (\<lambda>z. getitem_index ?n (snd z) = Inr k) ?zs = []"
    using a len unfolding zs by (auto simp: filter_empty_conv)
  show "rows t ! k = replicate (shape1 values) (fill_value dtype)"
    using events_loop_nth[OF loop, of k] a len none by simp
next
  fix t k
  let ?n = "nat (ttf duration (sr self) (hop_length self))"
  let ?f = "\<lambda>x. ttf x (sr self) (hop_length self)"
  let ?zs = "zip (map (map (astype_scalar dtype)) (rows values)) (map (\<lambda>(a, b). (?f a, ?f b)) intervals)"
  assume a: "encode_intervals ttf self duration intervals values dtype = Inr t
        \<and> k < length (rows t)
        \<and> (\<forall>z \<in> set (zip (rows values) intervals).
              \<not> in_slice (length (rows t)) (ttf (fst (snd z)) (sr self) (hop_length self))
                   (ttf (snd (snd z)) (sr self) (hop_length self)) k)"
  from a have rows: "rows t = intervals_loop dtype (replicate ?n (replicate (shape1 values) (fill_value dtype))) ?zs"
    by (auto simp: encode_intervals_eq split: if_splits)
  have len: "length (rows t) = ?n" by (simp add: rows)
  have zs: "?zs = map (\<lambda>(c, i). (map (astype_scalar dtype) c, (?f (fst i), ?f (snd i)))) (zip (rows values) intervals)"
    by (simp add: zip_map_map case_prod_unfold)
  have none: "filter (\<lambda>z. in_slice ?n (fst (snd z)) (snd (snd z)) k) ?zs = []"
    using a len unfolding zs by (auto simp: filter_empty_conv)
  from a len have k: "k < ?n" by simp
  show "rows t ! k = replicate (shape1 values) (fill_value dtype)"
    unfolding rows using intervals_loop_nth[of k "replicate ?n (replicate (shape1 values) (fill_value dtype))" dtype ?zs] k none
    by simp
qed


lemma time_to_frames_1000_100:
  "time_to_frames 0 1000 100 = 0"
  "time_to_frames (1 / 2) 1000 100 = 5"
  "time_to_frames 1 1000 100 = 10"
  "time_to_frames (3 / 2) 1000 100 = 15"
  "time_to_frames 2 1000 100 = 20"
  by (simp_all add: time_to_frames_def time_to_samples_def samples_to_frames_def trunc_def)

theorem unobserved_frames_hold_fill_value_witness:
  "fill_value np_complex = VComplex NaN (Fin 0)
   \<and> (\<exists>t. encode_events time_to_frames (BeatTransformer ''beat'' 1000 100) 1 [1 / 2] (np_ones 1 1) np_bool = Inr t
        \<and> length (rows t) = 10 \<and> rows t ! 3 = [VBool False])
   \<and> (\<exists>t. encode_intervals time_to_frames (BeatTransformer ''beat'' 1000 100) 1 [(0, 1 / 2)] (np_ones 1 1) np_int = Inr t
        \<and> length (rows t) = 10 \<and> rows t ! 7 = [VInt 0])"
proof -
  let ?tr = "BeatTransformer ''beat'' 1000 100"
  let ?t = "\<lparr>shape1 = 1, rows = (replicate 10 [VBool False])[5 := [VBool True]]\<rparr>"
  let ?u = "\<lparr>shape1 = 1, rows = intervals_loop np_int (replicate 10 [VInt 0]) [([VInt 1], 0, 5)]\<rparr>"
  note th = unobserved_frames_hold_fill_value
  have e: "encode_events time_to_frames ?tr 1 [1 / 2] (np_ones 1 1) np_bool = Inr ?t"
    by (simp add: encode_events_def np_empty_fill_def BeatTransformer_def np_ones_def
        time_to_frames_1000_100 fill_value_cases getitem_index_def iadd_row_def)
  have i: "encode_intervals time_to_frames ?tr 1 [(0, 1 / 2)] (np_ones 1 1) np_int = Inr ?u"
    by (simp add: encode_intervals_eq BeatTransformer_def np_ones_def
        time_to_frames_1000_100 fill_value_cases trunc_def)
  have "rows ?t ! 3 = replicate (shape1 (np_ones 1 1)) (fill_value np_bool)"
    using th [of np_bool time_to_frames ?tr 1 "[1 / 2]" "np_ones 1 1", THEN conjunct2, THEN conjunct1,
        rule_format, of ?t 3] e
    by (simp add: BeatTransformer_def np_ones_def time_to_frames_1000_100 getitem_index_def)
  moreover have "rows ?u ! 7 = replicate (shape1 (np_ones 1 1)) (fill_value np_int)"
    using th [of np_int time_to_frames ?tr 1 _ "np_ones 1 1" "[(0, 1 / 2)]", THEN conjunct2, THEN conjunct2,
        rule_format, of ?u 7] i
    by (simp add: BeatTransformer_def np_ones_def time_to_frames_1000_100 in_slice_def
        slice_indices_def slice_clip_def)
  moreover have "fill_value np_complex = VComplex NaN (Fin 0)"
    using th [where dtype = np_complex, THEN conjunct1]
    by (simp add: issubdtype_float_def issubdtype_complex_def)
  ultimately show ?thesis using e i
    by (simp add: np_ones_def fill_value_cases)
qed

section \<open>Floating-point and complex dtypes\<close>

lemma real_nan_to_float: "real_nan x \<Longrightarrow> to_float x = NaN"
  by (cases x) (simp_all add: real_nan_def)

lemma real_nan_isnan: "real_nan x \<Longrightarrow> isnan x"
  by (cases x) (simp_all add: real_nan_def)

lemma real_nan_fill_value:
  "issubdtype_float dt \<or> issubdtype_complex dt \<Longrightarrow> real_nan (fill_value dt)"
  by (cases dt) (simp_all add: real_nan_def fill_value_cases issubdtype_float_def issubdtype_complex_def)

lemma real_nan_iadd_scalar:
  "issubdtype_float dt \<or> issubdtype_complex dt \<Longrightarrow> real_nan x \<Longrightarrow> real_nan (iadd_scalar dt x y)"
  by (cases dt) (simp_all add: real_nan_to_float issubdtype_float_def issubdtype_complex_def, simp_all add: real_nan_def)

lemma real_nan_iadd_row:
  "issubdtype_float dt \<or> issubdtype_complex dt \<Longrightarrow> list_all real_nan row \<Longrightarrow>
   list_all real_nan (iadd_row dt row column)"
  by (auto simp: iadd_row_def list_all_iff real_nan_iadd_scalar dest: set_zip_leftD)

lemma real_nan_foldl:
  "issubdtype_float dt \<or> issubdtype_complex dt \<Longrightarrow> list_all real_nan row \<Longrightarrow>
   list_all real_nan (foldl (iadd_row dt) row columns)"
  by (induction columns arbitrary: row) (simp_all add: real_nan_iadd_row)

lemma real_nan_rows:
  assumes "\<And>k. k < length xs \<Longrightarrow> list_all real_nan (xs ! k)"
  shows "list_all (list_all isnan) xs"
proof -
  have "list_all isnan r" if "r \<in> set xs" for r
  proof -
    from that obtain k where "k < length xs" "r = xs ! k" by (auto simp: in_set_conv_nth)
    with assms have "list_all real_nan r" by simp
    then show ?thesis by (auto simp: list_all_iff real_nan_isnan)
  qed
  then show ?thesis by (simp add: list_all_iff)
qed

text \<open>
  Claim C4. For a floating-point or complex dtype every entry of the array that
  \<open>encode_events\<close> or \<open>encode_intervals\<close> returns is NaN, whatever the events, the
  intervals and the values are.
\<close>

theorem floating_encoding_is_all_nan:
  assumes "issubdtype_float dtype \<or> issubdtype_complex dtype"
  shows "(\<forall>t. encode_events ttf self duration events values dtype = Inr t
            \<longrightarrow> list_all (list_all isnan) (rows t))
       \<and> (\<forall>t. encode_intervals ttf self duration intervals values dtype = Inr t
            \<longrightarrow> list_all (list_all isnan) (rows t))"
proof (intro conjI allI impI)
  let ?n = "nat (ttf duration (sr self) (hop_length self))"
  let ?fill = "replicate (shape1 values) (fill_value dtype)"
  have fill: "list_all real_nan ?fill"
    using real_nan_fill_value[OF assms] by (simp add: list_all_iff)
  {
    fix t
    assume a: "encode_events ttf self duration events values dtype = Inr t"
    note loop = encode_events_Inr(3)[OF a]
    have len: "length (rows t) = ?n" using events_loop_length[OF loop] by simp
    have "list_all real_nan (rows t ! k)" if "k < ?n" for k
      using events_loop_nth[OF loop, of k] that real_nan_foldl[OF assms fill] by simp
    then show "list_all (list_all isnan) (rows t)"
      using len by (intro real_nan_rows) simp
  next
    fix t
    let ?zs = "zip (map (map (astype_scalar dtype)) (rows values))
                   (map (\<lambda>(a, b). (ttf a (sr self) (hop_length self), ttf b (sr self) (hop_length self))) intervals)"
    assume a: "encode_intervals ttf self duration intervals values dtype = Inr t"
    then have rows: "rows t = intervals_loop dtype (replicate ?n ?fill) ?zs"
      by (auto simp: encode_intervals_eq split: if_splits)
    have len: "length (rows t) = ?n" by (simp add: rows)
    have "list_all real_nan (rows t ! k)" if "k < ?n" for k
      unfolding rows
      using intervals_loop_nth[of k "replicate ?n ?fill" dtype ?zs] that real_nan_foldl[OF assms fill]
      by simp
    then show "list_all (list_all isnan) (rows t)"
      using len by (intro real_nan_rows) simp
  }
qed

theorem floating_encoding_is_all_nan_witness:
  "encode_events time_to_frames (BeatTransformer ''beat'' 1000 100) (1 / 2) [0, 3 / 10] (np_ones 2 1) np_float =
     Inr \<lparr>shape1 = 1, rows = [[VFloat NaN], [VFloat NaN], [VFloat NaN], [VFloat NaN], [VFloat NaN]]\<rparr>
   \<and> list_all (list_all isnan) [[VFloat NaN], [VFloat NaN], [VFloat NaN], [VFloat NaN], [VFloat NaN]]
   \<and> (\<exists>t. encode_intervals time_to_frames (BeatTransformer ''beat'' 1000 100) (1 / 2) [(0, 3 / 10)] (np_ones 1 1) np_complex = Inr t
         \<and> length (rows t) = 5 \<and> list_all (list_all isnan) (rows t))"
proof -
  let ?tr = "BeatTransformer ''beat'' 1000 100"
  let ?rows = "[[VFloat NaN], [VFloat NaN], [VFloat NaN], [VFloat NaN], [VFloat NaN]]"
  have f: "time_to_frames 0 1000 100 = 0" "time_to_frames (3 / 10) 1000 100 = 3" "time_to_frames (1 / 2) 1000 100 = 5"
    by (simp_all add: time_to_frames_def time_to_samples_def samples_to_frames_def trunc_def)
  have r5: "replicate 5 x = [x, x, x, x, x]" for x :: "scalar list"
    by (simp add: eval_nat_numeral)
  have e: "encode_events time_to_frames ?tr (1 / 2) [0, 3 / 10] (np_ones 2 1) np_float = Inr \<lparr>shape1 = 1, rows = ?rows\<rparr>"
    by (simp add: encode_events_def np_empty_fill_def BeatTransformer_def np_ones_def f r5
        fill_value_cases getitem_index_def iadd_row_def eval_nat_numeral)
  obtain u where i: "encode_intervals time_to_frames ?tr (1 / 2) [(0, 3 / 10)] (np_ones 1 1) np_complex = Inr u"
    and l: "length (rows u) = 5"
    by (simp add: encode_intervals_eq BeatTransformer_def f)
  note th = floating_encoding_is_all_nan
  have "list_all (list_all isnan) ?rows"
    using th [of np_float time_to_frames ?tr "1 / 2" "[0, 3 / 10]" "np_ones 2 1", THEN conjunct1, rule_format, OF _ e]
    by (simp add: issubdtype_float_def)
  moreover have "list_all (list_all isnan) (rows u)"
    using th [of np_complex time_to_frames ?tr "1 / 2" _ "np_ones 1 1" "[(0, 3 / 10)]", THEN conjunct2, rule_format, OF _ i]
    by (simp add: issubdtype_complex_def)
  ultimately show ?thesis using e i l by simp
qed

section \<open>Frames at or beyond the end of the frame axis\<close>

lemma time_to_frames_22050_512:
  "time_to_frames 0 22050 512 = 0"
  "time_to_frames 1 22050 512 = 43"
  "time_to_frames 5 22050 512 = 215"
  "time_to_frames (999 / 200) 22050 512 = 215"
  by code_simp+

text \<open>
  Claim C2. An interval boundary at or beyond \<open>n_frames\<close> is clipped by the slice:
  \<open>encode_intervals\<close> raises nothing and returns \<open>n_frames\<close> rows. An event whose frame
  index is at or beyond \<open>n_frames\<close> is not dropped: \<open>target[event]\<close> raises IndexError
  and \<open>encode_events\<close> returns no array.
\<close>

theorem encode_events_beyond_last_frame_raises:
  assumes "0 \<le> ttf duration (sr self) (hop_length self)"
    and "i < length events" and "i < length (rows values)"
    and "ttf duration (sr self) (hop_length self) \<le> ttf (events ! i) (sr self) (hop_length self)"
  shows "encode_events ttf self duration events values dtype = Inl IndexError
       \<and> (\<exists>t. encode_intervals ttf self duration intervals values dtype = Inr t
              \<and> length (rows t) = nat (ttf duration (sr self) (hop_length self)))"
proof
  let ?n = "nat (ttf duration (sr self) (hop_length self))"
  let ?f = "\<lambda>x. ttf x (sr self) (hop_length self)"
  let ?zs = "zip (map (map (astype_scalar dtype)) (rows values)) (map ?f events)"
  let ?target = "replicate ?n (replicate (shape1 values) (fill_value dtype))"
  have "?zs ! i \<in> set ?zs" using assms(2,3) by (intro nth_mem) simp
  moreover have "getitem_index (length ?target) (snd (?zs ! i)) = Inl IndexError"
    using assms by (simp add: getitem_index_def)
  ultimately have "events_loop dtype ?target ?zs = Inl IndexError"
    by (rule events_loop_raises)
  then show "encode_events ttf self duration events values dtype = Inl IndexError"
    using assms(1) by (simp add: encode_events_def np_empty_fill_def)
  show "\<exists>t. encode_intervals ttf self duration intervals values dtype = Inr t
              \<and> length (rows t) = ?n"
    using assms(1) by (simp add: encode_intervals_eq)
qed

theorem encode_events_beyond_last_frame_raises_witness:
  "encode_events time_to_frames (BeatTransformer ''beat'' 22050 512) 5 [999 / 200] (np_ones 1 1) np_bool = Inl IndexError
   \<and> (\<exists>t. encode_intervals time_to_frames (BeatTransformer ''beat'' 22050 512) 5 [(4, 5)] (np_ones 1 1) np_bool = Inr t
          \<and> length (rows t) = 215)"
  using encode_events_beyond_last_frame_raises [of time_to_frames 5
      "BeatTransformer ''beat'' 22050 512" 0 "[999 / 200]" "np_ones 1 1" np_bool "[(4, 5)]"]
  by (simp add: BeatTransformer_def np_ones_def time_to_frames_22050_512)

section \<open>Additivity of encode_intervals\<close>

lemma fadd_zero_left: "fadd (Fin 0) x = x"
  by (cases x) simp_all

lemma fadd_zero_right: "fadd x (Fin 0) = x"
  by (cases x) simp_all

lemma iadd_scalar_fill_both:
  "iadd_scalar dt (iadd_scalar dt (fill_value dt) a) b =
   iadd_scalar dt (iadd_scalar dt (fill_value dt) a) (iadd_scalar dt (fill_value dt) b)"
  by (cases dt) (simp_all add: fill_value_cases fadd_zero_left)

lemma iadd_scalar_fill_right:
  "iadd_scalar dt (iadd_scalar dt (fill_value dt) a) (fill_value dt) = iadd_scalar dt (fill_value dt) a"
  by (cases dt) (simp_all add: fill_value_cases fadd_zero_right)

lemma iadd_scalar_fill_left:
  "iadd_scalar dt (fill_value dt) (iadd_scalar dt (fill_value dt) b) = iadd_scalar dt (fill_value dt) b"
  by (cases dt) (simp_all add: fill_value_cases fadd_zero_left)

lemma iadd_scalar_fill_fill:
  "iadd_scalar dt (fill_value dt) (fill_value dt) = fill_value dt"
  by (cases dt) (simp_all add: fill_value_cases)

lemma iadd_row_length: "length (iadd_row dt r c) = min (length r) (length c)"
  by (simp add: iadd_row_def)

lemma iadd_row_nth:
  "j < length r \<Longrightarrow> j < length c \<Longrightarrow> iadd_row dt r c ! j = iadd_scalar dt (r ! j) (c ! j)"
  by (simp add: iadd_row_def)

lemma iadd_row_fill_both:
  assumes "length a = m" "length b = m"
  shows "iadd_row dt (iadd_row dt (replicate m (fill_value dt)) a) b =
         iadd_row dt (iadd_row dt (replicate m (fill_value dt)) a)
                     (iadd_row dt (replicate m (fill_value dt)) b)"
  using assms
  by (intro nth_equalityI) (simp_all add: iadd_row_length iadd_row_nth iadd_scalar_fill_both [symmetric])

lemma iadd_row_fill_right:
  assumes "length a = m"
  shows "iadd_row dt (iadd_row dt (replicate m (fill_value dt)) a) (replicate m (fill_value dt)) =
         iadd_row dt (replicate m (fill_value dt)) a"
  using assms
  by (intro nth_equalityI) (simp_all add: iadd_row_length iadd_row_nth iadd_scalar_fill_right)

lemma iadd_row_fill_left:
  assumes "length b = m"
  shows "iadd_row dt (replicate m (fill_value dt)) (iadd_row dt (replicate m (fill_value dt)) b) =
         iadd_row dt (replicate m (fill_value dt)) b"
  using assms
  by (intro nth_equalityI) (simp_all add: iadd_row_length iadd_row_nth iadd_scalar_fill_left)

lemma iadd_row_fill_fill:
  "iadd_row dt (replicate m (fill_value dt)) (replicate m (fill_value dt)) = replicate m (fill_value dt)"
  by (intro nth_equalityI) (simp_all add: iadd_row_length iadd_row_nth iadd_scalar_fill_fill)

text \<open>Row \<open>k\<close> of the encoding of one interval, and of two.\<close>

lemma one_interval_row:
  "k < n \<Longrightarrow>
   intervals_loop dt (replicate n F) [(c, a, b)] ! k = (if in_slice n a b k then iadd_row dt F c else F)"
  by (simp add: intervals_loop_nth del: intervals_loop.simps)

lemma two_intervals_row:
  "k < n \<Longrightarrow>
   intervals_loop dt (replicate n F) [(c, a, b), (c', a', b')] ! k =
     (if in_slice n a b k
      then (if in_slice n a' b' k then iadd_row dt (iadd_row dt F c) c' else iadd_row dt F c)
      else (if in_slice n a' b' k then iadd_row dt F c' else F))"
  by (simp add: intervals_loop_nth del: intervals_loop.simps)

lemma in_slice_nonneg:
  "0 \<le> a \<Longrightarrow> 0 \<le> b \<Longrightarrow> k < n \<Longrightarrow> in_slice n a b k = (a \<le> int k \<and> int k < b)"
  by (simp add: in_slice_def slice_indices_def slice_clip_def) linarith


text \<open>
  Claim C1. Encoding two intervals together gives, row by row, the sum (the \<open>+=\<close> of
  the dtype) of the two encodings of one interval each; a frame outside one of the two
  intervals holds what the encoding of the other interval alone holds there. For the
  intervals \<open>[0, 1)\<close> and \<open>[0.5, 1.5)\<close> with value 1 at \<open>sr = 1000\<close> and
  \<open>hop_length = 100\<close>, under an integer dtype, frames 5 to 9 hold 2, frames 0 to 4 and
  10 to 14 hold 1, and every later frame holds the fill value 0. Under the default
  dtype \<open>np.bool\<close> the sum is a logical or: frames 0 to 14 hold True.
\<close>

theorem encode_intervals_additive:
  "(length c1 = m \<and> length c2 = m \<and> 0 \<le> ttf duration (sr self) (hop_length self) \<longrightarrow>
      (\<exists>t12 t1 t2.
          encode_intervals ttf self duration [i1, i2] \<lparr>shape1 = m, rows = [c1, c2]\<rparr> dtype = Inr t12
        \<and> encode_intervals ttf self duration [i1] \<lparr>shape1 = m, rows = [c1]\<rparr> dtype = Inr t1
        \<and> encode_intervals ttf self duration [i2] \<lparr>shape1 = m, rows = [c2]\<rparr> dtype = Inr t2
        \<and> length (rows t12) = nat (ttf duration (sr self) (hop_length self))
        \<and> rows t12 = map2 (iadd_row dtype) (rows t1) (rows t2)
        \<and> (\<forall>k < length (rows t12).
               (\<not> in_slice (length (rows t12)) (ttf (fst i2) (sr self) (hop_length self))
                     (ttf (snd i2) (sr self) (hop_length self)) k
                  \<longrightarrow> rows t12 ! k = rows t1 ! k)
             \<and> (\<not> in_slice (length (rows t12)) (ttf (fst i1) (sr self) (hop_length self))
                     (ttf (snd i1) (sr self) (hop_length self)) k
                  \<longrightarrow> rows t12 ! k = rows t2 ! k))))
   \<and> (sr tr = 1000 \<and> hop_length tr = 100 \<and> 0 \<le> time_to_frames d 1000 100 \<longrightarrow>
      (\<exists>t b.
          encode_intervals time_to_frames tr d [(0, 1), (1 / 2, 3 / 2)]
            \<lparr>shape1 = 1, rows = [[VInt 1], [VInt 1]]\<rparr> np_int = Inr t
        \<and> length (rows t) = nat (time_to_frames d 1000 100)
        \<and> (\<forall>k < length (rows t).
               rows t ! k = [VInt (if 5 \<le> k \<and> k < 10 then 2 else if k < 15 then 1 else 0)])
        \<and> encode_intervals time_to_frames tr d [(0, 1), (1 / 2, 3 / 2)]
            \<lparr>shape1 = 1, rows = [[VInt 1], [VInt 1]]\<rparr> np_bool = Inr b
        \<and> length (rows b) = nat (time_to_frames d 1000 100)
        \<and> (\<forall>k < length (rows b). rows b ! k = [VBool (k < 15)])))"
proof (intro conjI impI)
  assume a: "length c1 = m \<and> length c2 = m \<and> 0 \<le> ttf duration (sr self) (hop_length self)"
  let ?f = "\<lambda>x. ttf x (sr self) (hop_length self)"
  let ?n = "nat (?f duration)"
  let ?F = "replicate m (fill_value dtype)"
  let ?c1 = "map (astype_scalar dtype) c1"
  let ?c2 = "map (astype_scalar dtype) c2"
  let ?z1 = "(?c1, ?f (fst i1), ?f (snd i1))"
  let ?z2 = "(?c2, ?f (fst i2), ?f (snd i2))"
  let ?r12 = "intervals_loop dtype (replicate ?n ?F) [?z1, ?z2]"
  let ?r1 = "intervals_loop dtype (replicate ?n ?F) [?z1]"
  let ?r2 = "intervals_loop dtype (replicate ?n ?F) [?z2]"
  have l: "length ?c1 = m" "length ?c2 = m" using a by simp_all
  have e12: "encode_intervals ttf self duration [i1, i2] \<lparr>shape1 = m, rows = [c1, c2]\<rparr> dtype
               = Inr \<lparr>shape1 = m, rows = ?r12\<rparr>"
    using a by (simp add: encode_intervals_eq case_prod_unfold)
  have e1: "encode_intervals ttf self duration [i1] \<lparr>shape1 = m, rows = [c1]\<rparr> dtype
               = Inr \<lparr>shape1 = m, rows = ?r1\<rparr>"
    using a by (simp add: encode_intervals_eq case_prod_unfold)
  have e2: "encode_intervals ttf self duration [i2] \<lparr>shape1 = m, rows = [c2]\<rparr> dtype
               = Inr \<lparr>shape1 = m, rows = ?r2\<rparr>"
    using a by (simp add: encode_intervals_eq case_prod_unfold)
  have row12: "?r12 ! k = iadd_row dtype (?r1 ! k) (?r2 ! k)" if "k < ?n" for k
    unfolding two_intervals_row[OF that] one_interval_row[OF that]
    using iadd_row_fill_both[OF l, of dtype] iadd_row_fill_right[OF l(1), of dtype]
      iadd_row_fill_left[OF l(2), of dtype] iadd_row_fill_fill[of dtype m]
    by simp
  have sum: "?r12 = map2 (iadd_row dtype) ?r1 ?r2"
    by (rule nth_equalityI) (simp_all add: row12 del: intervals_loop.simps)
  have left: "?r12 ! k = ?r1 ! k"
    if "k < ?n" "\<not> in_slice ?n (?f (fst i2)) (?f (snd i2)) k" for k
    unfolding two_intervals_row[OF that(1)] one_interval_row[OF that(1)] using that(2) by simp
  have right: "?r12 ! k = ?r2 ! k"
    if "k < ?n" "\<not> in_slice ?n (?f (fst i1)) (?f (snd i1)) k" for k
    unfolding two_intervals_row[OF that(1)] one_interval_row[OF that(1)] using that(2) by simp
  show "\<exists>t12 t1 t2.
          encode_intervals ttf self duration [i1, i2] \<lparr>shape1 = m, rows = [c1, c2]\<rparr> dtype = Inr t12
        \<and> encode_intervals ttf self duration [i1] \<lparr>shape1 = m, rows = [c1]\<rparr> dtype = Inr t1
        \<and> encode_intervals ttf self duration [i2] \<lparr>shape1 = m, rows = [c2]\<rparr> dtype = Inr t2
        \<and> length (rows t12) = nat (ttf duration (sr self) (hop_length self))
        \<and> rows t12 = map2 (iadd_row dtype) (rows t1) (rows t2)
        \<and> (\<forall>k < length (rows t12).
               (\<not> in_slice (length (rows t12)) (ttf (fst i2) (sr self) (hop_length self))
                     (ttf (snd i2) (sr self) (hop_length self)) k
                  \<longrightarrow> rows t12 ! k = rows t1 ! k)
             \<and> (\<not> in_slice (length (rows t12)) (ttf (fst i1) (sr self) (hop_length self))
                     (ttf (snd i1) (sr self) (hop_length self)) k
                  \<longrightarrow> rows t12 ! k = rows t2 ! k))"
    unfolding e12 e1 e2
    apply (intro exI conjI)
         apply (rule refl)
        apply (rule refl)
       apply (rule refl)
      apply (simp del: intervals_loop.simps)
     apply (simp only: array2.simps)
     apply (rule sum)
    apply (simp only: array2.simps intervals_loop_length length_replicate)
    apply (intro allI impI conjI)
     apply (erule (1) left)
    apply (erule (1) right)
    done
next
  assume a: "sr tr = 1000 \<and> hop_length tr = 100 \<and> 0 \<le> time_to_frames d 1000 100"
  let ?n = "nat (time_to_frames d 1000 100)"
  let ?zi = "[([VInt 1], 0, 10), ([VInt 1], 5, 15)]"
  let ?zb = "[([VBool True], 0, 10), ([VBool True], 5, 15)]"
  let ?ri = "intervals_loop np_int (replicate ?n [VInt 0]) ?zi"
  let ?rb = "intervals_loop np_bool (replicate ?n [VBool False]) ?zb"
  have ei: "encode_intervals time_to_frames tr d [(0, 1), (1 / 2, 3 / 2)]
            \<lparr>shape1 = 1, rows = [[VInt 1], [VInt 1]]\<rparr> np_int = Inr \<lparr>shape1 = 1, rows = ?ri\<rparr>"
    using a by (simp add: encode_intervals_eq time_to_frames_1000_100 fill_value_cases)
  have eb: "encode_intervals time_to_frames tr d [(0, 1), (1 / 2, 3 / 2)]
            \<lparr>shape1 = 1, rows = [[VInt 1], [VInt 1]]\<rparr> np_bool = Inr \<lparr>shape1 = 1, rows = ?rb\<rparr>"
    using a by (simp add: encode_intervals_eq time_to_frames_1000_100 fill_value_cases)
  have ri: "?ri ! k = [VInt (if 5 \<le> k \<and> k < 10 then 2 else if k < 15 then 1 else 0)]" if "k < ?n" for k
    unfolding two_intervals_row[OF that] using that
    by (simp add: in_slice_nonneg iadd_row_def)
  have rb: "?rb ! k = [VBool (k < 15)]" if "k < ?n" for k
    unfolding two_intervals_row[OF that] using that
    by (auto simp add: in_slice_nonneg iadd_row_def)
  show "\<exists>t b.
          encode_intervals time_to_frames tr d [(0, 1), (1 / 2, 3 / 2)]
            \<lparr>shape1 = 1, rows = [[VInt 1], [VInt 1]]\<rparr> np_int = Inr t
        \<and> length (rows t) = nat (time_to_frames d 1000 100)
        \<and> (\<forall>k < length (rows t).
               rows t ! k = [VInt (if 5 \<le> k \<and> k < 10 then 2 else if k < 15 then 1 else 0)])
        \<and> encode_intervals time_to_frames tr d [(0, 1), (1 / 2, 3 / 2)]
            \<lparr>shape1 = 1, rows = [[VInt 1], [VInt 1]]\<rparr> np_bool = Inr b
        \<and> length (rows b) = nat (time_to_frames d 1000 100)
        \<and> (\<forall>k < length (rows b). rows b ! k = [VBool (k < 15)])"
    unfolding ei eb
    apply (intro exI conjI)
         apply (rule refl)
        apply (simp del: intervals_loop.simps)
       apply (simp only: array2.simps intervals_loop_length length_replicate)
       apply (intro allI impI)
       apply (erule ri)
      apply (rule refl)
     apply (simp del: intervals_loop.simps)
    apply (simp only: array2.simps intervals_loop_length length_replicate)
    apply (intro allI impI)
    apply (erule rb)
    done
qed


theorem encode_intervals_additive_witness:
  "\<exists>t12 t1 t2.
      encode_intervals time_to_frames (BeatTransformer ''beat'' 1000 100) 2 [(0, 1), (1 / 2, 3 / 2)]
        \<lparr>shape1 = 1, rows = [[VInt 1], [VInt 1]]\<rparr> np_int = Inr t12
    \<and> encode_intervals time_to_frames (BeatTransformer ''beat'' 1000 100) 2 [(0, 1)]
        \<lparr>shape1 = 1, rows = [[VInt 1]]\<rparr> np_int = Inr t1
    \<and> encode_intervals time_to_frames (BeatTransformer ''beat'' 1000 100) 2 [(1 / 2, 3 / 2)]
        \<lparr>shape1 = 1, rows = [[VInt 1]]\<rparr> np_int = Inr t2
    \<and> rows t12 = map2 (iadd_row np_int) (rows t1) (rows t2)
    \<and> length (rows t12) = 20
    \<and> rows t12 ! 2 = [VInt 1] \<and> rows t12 ! 7 = [VInt 2]
    \<and> rows t12 ! 12 = [VInt 1] \<and> rows t12 ! 17 = [VInt 0]"
proof -
  let ?tr = "BeatTransformer ''beat'' 1000 100"
  note th = encode_intervals_additive [where ttf = time_to_frames and self = ?tr and tr = ?tr
      and duration = 2 and d = 2 and m = 1 and ?c1.0 = "[VInt 1]" and ?c2.0 = "[VInt 1]"
      and ?i1.0 = "(0, 1)" and ?i2.0 = "(1 / 2, 3 / 2)" and dtype = np_int]
  have pre: "sr ?tr = 1000" "hop_length ?tr = 100" "time_to_frames 2 1000 100 = 20"
    by (simp_all add: BeatTransformer_def time_to_frames_1000_100)
  from th [THEN conjunct1] pre obtain t12 t1 t2 where
    g: "encode_intervals time_to_frames ?tr 2 [(0, 1), (1 / 2, 3 / 2)]
          \<lparr>shape1 = 1, rows = [[VInt 1], [VInt 1]]\<rparr> np_int = Inr t12"
       "encode_intervals time_to_frames ?tr 2 [(0, 1)] \<lparr>shape1 = 1, rows = [[VInt 1]]\<rparr> np_int = Inr t1"
       "encode_intervals time_to_frames ?tr 2 [(1 / 2, 3 / 2)] \<lparr>shape1 = 1, rows = [[VInt 1]]\<rparr> np_int = Inr t2"
       "rows t12 = map2 (iadd_row np_int) (rows t1) (rows t2)"
    by auto
  from th [THEN conjunct2] pre obtain t where
    c: "encode_intervals time_to_frames ?tr 2 [(0, 1), (1 / 2, 3 / 2)]
          \<lparr>shape1 = 1, rows = [[VInt 1], [VInt 1]]\<rparr> np_int = Inr t"
       "length (rows t) = 20"
       "\<forall>k < length (rows t). rows t ! k = [VInt (if 5 \<le> k \<and> k < 10 then 2 else if k < 15 then 1 else 0)]"
    by auto
  from g(1) c(1) have "t = t12" by simp
  with c have "length (rows t12) = 20" "rows t12 ! 2 = [VInt 1]" "rows t12 ! 7 = [VInt 2]"
    "rows t12 ! 12 = [VInt 1]" "rows t12 ! 17 = [VInt 0]"
    by simp_all
  with g show ?thesis by blast
qed

theorem encode_intervals_overlap_counterexample:
  "encode_intervals time_to_frames (BeatTransformer ''beat'' 1000 100) 2 [(0, 1), (1 / 2, 3 / 2)]
     \<lparr>shape1 = 1, rows = [[VInt 1], [VInt 1]]\<rparr> np_bool =
   Inr \<lparr>shape1 = 1, rows =
     [[VBool True], [VBool True], [VBool True], [VBool True], [VBool True],
      [VBool True], [VBool True], [VBool True], [VBool True], [VBool True],
      [VBool True], [VBool True], [VBool True], [VBool True], [VBool True],
      [VBool False], [VBool False], [VBool False], [VBool False], [VBool False]]\<rparr>
   \<and> to_int (VBool True) \<noteq> 2
   \<and> encode_intervals time_to_frames (BeatTransformer ''beat'' 1000 100) 2 [(0, 1), (1 / 2, 3 / 2)]
     \<lparr>shape1 = 1, rows = [[VInt 1], [VInt 1]]\<rparr> np_float =
   Inr \<lparr>shape1 = 1, rows =
     [[VFloat NaN], [VFloat NaN], [VFloat NaN], [VFloat NaN], [VFloat NaN],
      [VFloat NaN], [VFloat NaN], [VFloat NaN], [VFloat NaN], [VFloat NaN],
      [VFloat NaN], [VFloat NaN], [VFloat NaN], [VFloat NaN], [VFloat NaN],
      [VFloat NaN], [VFloat NaN], [VFloat NaN], [VFloat NaN], [VFloat NaN]]\<rparr>"
  by code_simp

section \<open>BeatTransformer.transform_annotation\<close>

lemma foldl_iadd_row_bool_ones:
  "\<forall>c \<in> set cs. c = [VBool True] \<Longrightarrow>
   foldl (iadd_row np_bool) [VBool b] cs = [VBool (b \<or> cs \<noteq> [])]"
  by (induction cs arbitrary: b) (auto simp: iadd_row_def)

lemma np_zeros_0_eq_np_ones_0: "np_zeros 0 m = np_ones 0 m"
  by (simp add: np_zeros_def np_ones_def)

lemma rows_astype_np_ones_bool:
  "map (map (astype_scalar np_bool)) (rows (np_ones n 1)) = replicate n [VBool True]"
  by (simp add: np_ones_def)

text \<open>
  \<open>encode_events\<close> on labels that are all one, under \<open>np.bool\<close>: frame \<open>k\<close> holds True
  exactly when some event lands on it.
\<close>

lemma encode_events_bool_ones:
  assumes n: "0 \<le> ttf duration (sr self) (hop_length self)"
    and ok: "\<forall>e \<in> set events. \<exists>k. getitem_index (nat (ttf duration (sr self) (hop_length self)))
                (ttf e (sr self) (hop_length self)) = Inr k"
  shows "\<exists>t. encode_events ttf self duration events (np_ones (length events) 1) np_bool = Inr t
           \<and> shape1 t = 1
           \<and> length (rows t) = nat (ttf duration (sr self) (hop_length self))
           \<and> (\<forall>k < nat (ttf duration (sr self) (hop_length self)).
                 rows t ! k = [VBool (\<exists>e \<in> set events.
                    getitem_index (nat (ttf duration (sr self) (hop_length self)))
                      (ttf e (sr self) (hop_length self)) = Inr k)])"
proof -
  let ?n = "nat (ttf duration (sr self) (hop_length self))"
  let ?f = "\<lambda>x. ttf x (sr self) (hop_length self)"
  let ?target = "replicate ?n [VBool False]"
  let ?zs = "zip (replicate (length events) [VBool True]) (map ?f events)"
  have snd_zs: "snd ` set ?zs = ?f ` set events"
    by (simp add: zip_replicate1 image_image)
  have fst_zs: "\<forall>z \<in> set ?zs. fst z = [VBool True]"
    by (auto dest: set_zip_leftD)
  have "\<forall>z \<in> set ?zs. \<exists>k. getitem_index (length ?target) (snd z) = Inr k"
  proof
    fix z
    assume z: "z \<in> set ?zs"
    obtain c x where zx: "z = (c, x)" by (cases z)
    with z have "x \<in> set (map ?f events)" by (auto dest: set_zip_rightD)
    then obtain e where "e \<in> set events" "x = ?f e" by auto
    with ok zx show "\<exists>k. getitem_index (length ?target) (snd z) = Inr k" by auto
  qed
  from events_loop_returns[OF this] obtain r where r: "events_loop np_bool ?target ?zs = Inr r"
    by blast
  have len: "length r = ?n" using events_loop_length[OF r] by simp
  have row: "r ! k = [VBool (\<exists>e \<in> set events. getitem_index ?n (?f e) = Inr k)]" if "k < ?n" for k
  proof -
    let ?cs = "map fst (filter (\<lambda>z. getitem_index ?n (snd z) = Inr k) ?zs)"
    have "\<forall>c \<in> set ?cs. c = [VBool True]" using fst_zs by auto
    from foldl_iadd_row_bool_ones[OF this, of False]
    have "r ! k = [VBool (?cs \<noteq> [])]"
      using events_loop_nth[OF r, of k] that by simp
    moreover have "?cs \<noteq> [] \<longleftrightarrow> (\<exists>x \<in> snd ` set ?zs. getitem_index ?n x = Inr k)"
      by (auto simp: filter_empty_conv)
    ultimately show ?thesis unfolding snd_zs by auto
  qed
  have "encode_events ttf self duration events (np_ones (length events) 1) np_bool
          = Inr \<lparr>shape1 = 1, rows = r\<rparr>"
    using n r
    by (simp add: encode_events_def np_empty_fill_def rows_astype_np_ones_bool fill_value_cases
        del: replicate.simps)
      (simp add: np_ones_def)
  with len row show ?thesis by auto
qed

text \<open>The two branches of the method as one expression.\<close>

lemma downbeat_length_filter:
  "length (filter snd (zip (map f xs) (map g xs))) = length (filter g xs)"
  by (induction xs) auto

lemma downbeat_events_filter:
  "map fst (filter snd (zip (map f xs) (map g xs))) = map f (filter g xs)"
  by (induction xs) auto

lemma beat_transform_annotation_eq:
  "beat_transform_annotation ttf self ann duration =
     (case encode_events ttf self duration (map obs_time (ann_data ann))
             (np_ones (length (ann_data ann)) 1) np_bool of
        Inl e \<Rightarrow> Inl e
      | Inr target_beat \<Rightarrow>
          (case encode_events ttf self duration
                  (map obs_time (filter (\<lambda>ob. obs_value ob = Some 1) (ann_data ann)))
                  (np_ones (length (filter (\<lambda>ob. obs_value ob = Some 1) (ann_data ann))) 1) np_bool of
             Inl e \<Rightarrow> Inl e
           | Inr target_downbeat \<Rightarrow>
               Inr [''beat'' \<mapsto> Array target_beat,
                    ''downbeat'' \<mapsto> Array target_downbeat,
                    ''mask_downbeat'' \<mapsto> Flag (\<exists>ob \<in> set (ann_data ann). obs_value ob = Some 1)]))"
proof -
  let ?data = "ann_data ann"
  let ?down = "filter (\<lambda>ob. obs_value ob = Some 1) ?data"
  have ex: "list_ex id (map (\<lambda>v. v = Some 1) (map obs_value ?data))
              \<longleftrightarrow> (\<exists>ob \<in> set ?data. obs_value ob = Some 1)"
    by (auto simp: list_ex_iff)
  show ?thesis
  proof (cases "\<exists>ob \<in> set ?data. obs_value ob = Some 1")
    case True
    with ex show ?thesis
      by (simp add: beat_transform_annotation_def to_interval_values_def Let_def comp_def
          downbeat_events_filter downbeat_length_filter cong: sum.case_cong)
  next
    case False
    then have "?down = []" by (auto simp: filter_empty_conv)
    with False ex show ?thesis
      by (simp add: beat_transform_annotation_def to_interval_values_def Let_def comp_def
          np_zeros_0_eq_np_ones_0 cong: sum.case_cong)
  qed
qed


text \<open>
  Claim C10. Every onset of the annotation is a beat event, whatever its value; an onset
  is a downbeat event exactly when its value equals 1; and \<open>mask_downbeat\<close> is true
  exactly when some value equals 1. So frame \<open>k\<close> of \<open>beat\<close> holds True exactly when
  some onset lands on it, frame \<open>k\<close> of \<open>downbeat\<close> holds True exactly when some onset
  of value 1 lands on it, and with no value equal to 1 the \<open>downbeat\<close> field is all
  False. The onsets are assumed to land on the frame axis.
\<close>

theorem beat_transform_annotation_classifies:
  assumes "0 \<le> ttf duration (sr self) (hop_length self)"
    and "\<forall>ob \<in> set (ann_data ann). \<exists>k.
           getitem_index (nat (ttf duration (sr self) (hop_length self)))
             (ttf (obs_time ob) (sr self) (hop_length self)) = Inr k"
  shows "\<exists>target_beat target_downbeat.
      beat_transform_annotation ttf self ann duration =
        Inr [''beat'' \<mapsto> Array target_beat,
             ''downbeat'' \<mapsto> Array target_downbeat,
             ''mask_downbeat'' \<mapsto> Flag (\<exists>ob \<in> set (ann_data ann). obs_value ob = Some 1)]
    \<and> shape1 target_beat = 1 \<and> shape1 target_downbeat = 1
    \<and> length (rows target_beat) = nat (ttf duration (sr self) (hop_length self))
    \<and> length (rows target_downbeat) = nat (ttf duration (sr self) (hop_length self))
    \<and> (\<forall>k < nat (ttf duration (sr self) (hop_length self)).
           rows target_beat ! k =
             [VBool (\<exists>ob \<in> set (ann_data ann).
                getitem_index (nat (ttf duration (sr self) (hop_length self)))
                  (ttf (obs_time ob) (sr self) (hop_length self)) = Inr k)]
         \<and> rows target_downbeat ! k =
             [VBool (\<exists>ob \<in> set (ann_data ann). obs_value ob = Some 1 \<and>
                getitem_index (nat (ttf duration (sr self) (hop_length self)))
                  (ttf (obs_time ob) (sr self) (hop_length self)) = Inr k)])
    \<and> ((\<forall>ob \<in> set (ann_data ann). obs_value ob \<noteq> Some 1) \<longrightarrow>
           rows target_downbeat =
             replicate (nat (ttf duration (sr self) (hop_length self))) [fill_value np_bool])"
proof -
  let ?n = "nat (ttf duration (sr self) (hop_length self))"
  let ?f = "\<lambda>x. ttf x (sr self) (hop_length self)"
  let ?data = "ann_data ann"
  let ?down = "filter (\<lambda>ob. obs_value ob = Some 1) ?data"
  have ok_beat: "\<forall>e \<in> set (map obs_time ?data). \<exists>k. getitem_index ?n (?f e) = Inr k"
    using assms(2) by auto
  have ok_down: "\<forall>e \<in> set (map obs_time ?down). \<exists>k. getitem_index ?n (?f e) = Inr k"
    using assms(2) by auto
  from encode_events_bool_ones[where ttf = ttf and self = self and duration = duration
      and events = "map obs_time ?data", OF assms(1) ok_beat] obtain tb where
    tb: "encode_events ttf self duration (map obs_time ?data) (np_ones (length ?data) 1) np_bool = Inr tb"
      "shape1 tb = 1" "length (rows tb) = ?n"
      "\<forall>k < ?n. rows tb ! k = [VBool (\<exists>e \<in> set (map obs_time ?data). getitem_index ?n (?f e) = Inr k)]"
    by auto
  from encode_events_bool_ones[where ttf = ttf and self = self and duration = duration
      and events = "map obs_time ?down", OF assms(1) ok_down] obtain td where
    td: "encode_events ttf self duration (map obs_time ?down) (np_ones (length ?down) 1) np_bool = Inr td"
      "shape1 td = 1" "length (rows td) = ?n"
      "\<forall>k < ?n. rows td ! k = [VBool (\<exists>e \<in> set (map obs_time ?down). getitem_index ?n (?f e) = Inr k)]"
    by auto
  have eq: "beat_transform_annotation ttf self ann duration =
        Inr [''beat'' \<mapsto> Array tb, ''downbeat'' \<mapsto> Array td,
             ''mask_downbeat'' \<mapsto> Flag (\<exists>ob \<in> set ?data. obs_value ob = Some 1)]"
    unfolding beat_transform_annotation_eq tb(1) td(1) by simp
  have rb: "rows tb ! k = [VBool (\<exists>ob \<in> set ?data. getitem_index ?n (?f (obs_time ob)) = Inr k)]"
    if "k < ?n" for k
    using tb(4) that by simp
  have rd: "rows td ! k = [VBool (\<exists>ob \<in> set ?data. obs_value ob = Some 1 \<and>
                getitem_index ?n (?f (obs_time ob)) = Inr k)]"
    if "k < ?n" for k
  proof -
    have "(\<exists>e \<in> set (map obs_time ?down). getitem_index ?n (?f e) = Inr k)
        \<longleftrightarrow> (\<exists>ob \<in> set ?data. obs_value ob = Some 1 \<and> getitem_index ?n (?f (obs_time ob)) = Inr k)"
      by auto
    with td(4) that show ?thesis by simp
  qed
  have none: "rows td = replicate ?n [fill_value np_bool]"
    if "\<forall>ob \<in> set ?data. obs_value ob \<noteq> Some 1"
  proof (rule nth_equalityI)
    show "length (rows td) = length (replicate ?n [fill_value np_bool])" using td(3) by simp
  next
    fix k
    assume "k < length (rows td)"
    with td(3) have k: "k < ?n" by simp
    from rd[OF k] that k show "rows td ! k = replicate ?n [fill_value np_bool] ! k"
      by (simp add: fill_value_cases)
  qed
  show ?thesis
    apply (rule exI [of _ tb])
    apply (rule exI [of _ td])
    apply (intro conjI allI impI)
           apply (rule eq)
          apply (rule tb(2))
         apply (rule td(2))
        apply (rule tb(3))
       apply (rule td(3))
      apply (erule rb)
     apply (erule rd)
    apply (erule none)
    done
qed


theorem beat_transform_annotation_classifies_witness:
  "(\<exists>target_beat target_downbeat.
      beat_transform_annotation time_to_frames (BeatTransformer ''beat'' 1000 100)
        \<lparr>ann_namespace = ''beat'',
         ann_data = [\<lparr>obs_time = 0, obs_duration = 0, obs_value = Some 1\<rparr>,
                     \<lparr>obs_time = 1 / 2, obs_duration = 0, obs_value = Some 2\<rparr>,
                     \<lparr>obs_time = 1, obs_duration = 0, obs_value = None\<rparr>],
         ann_time = None, ann_duration = None\<rparr> 2 =
        Inr [''beat'' \<mapsto> Array target_beat,
             ''downbeat'' \<mapsto> Array target_downbeat,
             ''mask_downbeat'' \<mapsto> Flag True]
    \<and> length (rows target_beat) = 20 \<and> length (rows target_downbeat) = 20
    \<and> rows target_beat ! 0 = [VBool True] \<and> rows target_beat ! 5 = [VBool True]
    \<and> rows target_beat ! 10 = [VBool True] \<and> rows target_beat ! 7 = [VBool False]
    \<and> rows target_downbeat ! 0 = [VBool True] \<and> rows target_downbeat ! 5 = [VBool False]
    \<and> rows target_downbeat ! 10 = [VBool False])
   \<and> (\<exists>target_beat.
      beat_transform_annotation time_to_frames (BeatTransformer ''beat'' 1000 100)
        \<lparr>ann_namespace = ''beat'',
         ann_data = [\<lparr>obs_time = 1 / 2, obs_duration = 0, obs_value = Some 2\<rparr>],
         ann_time = None, ann_duration = None\<rparr> 2 =
        Inr [''beat'' \<mapsto> Array target_beat,
             ''downbeat'' \<mapsto> Array \<lparr>shape1 = 1, rows = replicate 20 [VBool False]\<rparr>,
             ''mask_downbeat'' \<mapsto> Flag False]
    \<and> rows target_beat ! 5 = [VBool True])"
proof -
  let ?tr = "BeatTransformer ''beat'' 1000 100"
  let ?a = "\<lparr>ann_namespace = ''beat'',
         ann_data = [\<lparr>obs_time = 0, obs_duration = 0, obs_value = Some (1 :: rat)\<rparr>,
                     \<lparr>obs_time = 1 / 2, obs_duration = 0, obs_value = Some 2\<rparr>,
                     \<lparr>obs_time = 1, obs_duration = 0, obs_value = None\<rparr>],
         ann_time = None, ann_duration = None\<rparr>"
  let ?b = "\<lparr>ann_namespace = ''beat'',
         ann_data = [\<lparr>obs_time = 1 / 2, obs_duration = 0, obs_value = Some (2 :: rat)\<rparr>],
         ann_time = None, ann_duration = None\<rparr>"
  have pre: "sr ?tr = 1000" "hop_length ?tr = 100"
    by (simp_all add: BeatTransformer_def)
  note f = time_to_frames_1000_100
  have n: "nat (time_to_frames 2 (sr ?tr) (hop_length ?tr)) = 20"
    by (simp add: pre f)
  have h1: "0 \<le> time_to_frames 2 (sr ?tr) (hop_length ?tr)"
    by (simp add: pre f)
  have h2a: "\<forall>ob \<in> set (ann_data ?a). \<exists>k.
           getitem_index (nat (time_to_frames 2 (sr ?tr) (hop_length ?tr)))
             (time_to_frames (obs_time ob) (sr ?tr) (hop_length ?tr)) = Inr k"
    by (simp add: pre f getitem_index_def)
  have h2b: "\<forall>ob \<in> set (ann_data ?b). \<exists>k.
           getitem_index (nat (time_to_frames 2 (sr ?tr) (hop_length ?tr)))
             (time_to_frames (obs_time ob) (sr ?tr) (hop_length ?tr)) = Inr k"
    by (simp add: pre f getitem_index_def)
  from beat_transform_annotation_classifies [where ttf = time_to_frames and self = ?tr
        and duration = 2 and ann = ?a, OF h1 h2a, unfolded n]
  obtain tb td where
    e: "beat_transform_annotation time_to_frames ?tr ?a 2 =
        Inr [''beat'' \<mapsto> Array tb, ''downbeat'' \<mapsto> Array td,
             ''mask_downbeat'' \<mapsto> Flag (\<exists>ob \<in> set (ann_data ?a). obs_value ob = Some 1)]"
    and l: "length (rows tb) = 20" "length (rows td) = 20"
    and r: "\<forall>k < 20.
           rows tb ! k =
             [VBool (\<exists>ob \<in> set (ann_data ?a).
                getitem_index 20 (time_to_frames (obs_time ob) (sr ?tr) (hop_length ?tr)) = Inr k)]
         \<and> rows td ! k =
             [VBool (\<exists>ob \<in> set (ann_data ?a). obs_value ob = Some 1 \<and>
                getitem_index 20 (time_to_frames (obs_time ob) (sr ?tr) (hop_length ?tr)) = Inr k)]"
    by blast
  have rb: "rows tb ! 0 = [VBool True]" "rows tb ! 5 = [VBool True]"
    "rows tb ! 10 = [VBool True]" "rows tb ! 7 = [VBool False]"
    using r[rule_format, of 0] r[rule_format, of 5] r[rule_format, of 10] r[rule_format, of 7]
    by (simp_all add: pre f getitem_index_def)
  have rd: "rows td ! 0 = [VBool True]" "rows td ! 5 = [VBool False]" "rows td ! 10 = [VBool False]"
    using r[rule_format, of 0] r[rule_format, of 5] r[rule_format, of 10]
    by (simp_all add: pre f getitem_index_def)
  have first: "\<exists>target_beat target_downbeat.
      beat_transform_annotation time_to_frames ?tr ?a 2 =
        Inr [''beat'' \<mapsto> Array target_beat,
             ''downbeat'' \<mapsto> Array target_downbeat,
             ''mask_downbeat'' \<mapsto> Flag True]
    \<and> length (rows target_beat) = 20 \<and> length (rows target_downbeat) = 20
    \<and> rows target_beat ! 0 = [VBool True] \<and> rows target_beat ! 5 = [VBool True]
    \<and> rows target_beat ! 10 = [VBool True] \<and> rows target_beat ! 7 = [VBool False]
    \<and> rows target_downbeat ! 0 = [VBool True] \<and> rows target_downbeat ! 5 = [VBool False]
    \<and> rows target_downbeat ! 10 = [VBool False]"
    apply (rule exI [of _ tb])
    apply (rule exI [of _ td])
    using e l rb rd apply simp
    done
  from beat_transform_annotation_classifies [where ttf = time_to_frames and self = ?tr
        and duration = 2 and ann = ?b, OF h1 h2b, unfolded n]
  obtain ub ud where
    e': "beat_transform_annotation time_to_frames ?tr ?b 2 =
        Inr [''beat'' \<mapsto> Array ub, ''downbeat'' \<mapsto> Array ud,
             ''mask_downbeat'' \<mapsto> Flag (\<exists>ob \<in> set (ann_data ?b). obs_value ob = Some 1)]"
    and s': "shape1 ud = 1"
    and r': "\<forall>k < 20.
           rows ub ! k =
             [VBool (\<exists>ob \<in> set (ann_data ?b).
                getitem_index 20 (time_to_frames (obs_time ob) (sr ?tr) (hop_length ?tr)) = Inr k)]
         \<and> rows ud ! k =
             [VBool (\<exists>ob \<in> set (ann_data ?b). obs_value ob = Some 1 \<and>
                getitem_index 20 (time_to_frames (obs_time ob) (sr ?tr) (hop_length ?tr)) = Inr k)]"
    and z': "(\<forall>ob \<in> set (ann_data ?b). obs_value ob \<noteq> Some 1) \<longrightarrow>
           rows ud = replicate 20 [fill_value np_bool]"
    by blast
  have ud: "ud = \<lparr>shape1 = 1, rows = replicate 20 [VBool False]\<rparr>"
    using s' z' by (cases ud) (simp add: fill_value_cases)
  have ub5: "rows ub ! 5 = [VBool True]"
    using r'[rule_format, of 5] by (simp add: pre f getitem_index_def)
  have second: "\<exists>target_beat.
      beat_transform_annotation time_to_frames ?tr ?b 2 =
        Inr [''beat'' \<mapsto> Array target_beat,
             ''downbeat'' \<mapsto> Array \<lparr>shape1 = 1, rows = replicate 20 [VBool False]\<rparr>,
             ''mask_downbeat'' \<mapsto> Flag False]
    \<and> rows target_beat ! 5 = [VBool True]"
    apply (rule exI [of _ ub])
    using e' ud ub5 apply simp
    done
  from first second show ?thesis by (rule conjI)
qed

section \<open>The beat scenario\<close>

text \<open>
  Claim C8. With \<open>sr = 22050\<close> and \<open>hop_length = 512\<close>, a track of 5 seconds and one beat
  annotation with a single onset at 1 second whose value is not 1 (no downbeat), the
  record that \<open>transform\<close> hands to \<open>merge\<close> has: a \<open>beat\<close> field of 215 rows that holds
  True at frame 43 and False elsewhere; an all-False \<open>downbeat\<close> field; \<open>mask_downbeat\<close>
  False; and \<open>_valid = [0, 215]\<close>. The annotation spans the track (its time or duration
  is unset, or they are 0 and 5), and converting it to its own namespace returns it.
\<close>

theorem beat_single_onset_scenario:
  assumes "v \<noteq> Some 1"
    and "t0 = None \<or> d0 = None \<or> (t0 = Some 0 \<and> d0 = Some 5)"
    and "convert \<lparr>ann_namespace = ''beat'',
                    ann_data = [\<lparr>obs_time = 1, obs_duration = du, obs_value = v\<rparr>],
                    ann_time = t0, ann_duration = d0\<rparr> ''beat''
         = Inr \<lparr>ann_namespace = ''beat'',
                 ann_data = [\<lparr>obs_time = 1, obs_duration = du, obs_value = v\<rparr>],
                 ann_time = t0, ann_duration = d0\<rparr>"
  shows "transform time_to_frames convert search
           (beat_transform_annotation time_to_frames (BeatTransformer ''beat'' 22050 512)) merge
           (BeatTransformer ''beat'' 22050 512)
           \<lparr>annotations = [\<lparr>ann_namespace = ''beat'',
                              ann_data = [\<lparr>obs_time = 1, obs_duration = du, obs_value = v\<rparr>],
                              ann_time = t0, ann_duration = d0\<rparr>],
            file_metadata_duration = 5\<rparr> None
         = Inr (merge (BeatTransformer ''beat'' 22050 512)
             [[''beat'' \<mapsto> Array \<lparr>shape1 = 1, rows = (replicate 215 [VBool False])[43 := [VBool True]]\<rparr>,
               ''downbeat'' \<mapsto> Array \<lparr>shape1 = 1, rows = replicate 215 [VBool False]\<rparr>,
               ''mask_downbeat'' \<mapsto> Flag False,
               ''_valid'' \<mapsto> Frames [0, 215]]])
       \<and> round (1 * 22050 / 512 :: rat) = 43 \<and> round (5 * 22050 / 512 :: rat) = 215"
proof -
  let ?tr = "BeatTransformer ''beat'' 22050 512"
  let ?ann = "\<lparr>ann_namespace = ''beat'',
                ann_data = [\<lparr>obs_time = 1, obs_duration = du, obs_value = v\<rparr>],
                ann_time = t0, ann_duration = d0\<rparr>"
  have pre: "sr ?tr = 22050" "hop_length ?tr = 512" "namespace ?tr = ''beat''"
    by (simp_all add: BeatTransformer_def)
  note f = time_to_frames_22050_512
  have beat: "encode_events time_to_frames ?tr 5 [1] (np_ones 1 1) np_bool
      = Inr \<lparr>shape1 = 1, rows = (replicate 215 [VBool False])[43 := [VBool True]]\<rparr>"
    by (simp add: encode_events_def np_empty_fill_def pre f np_ones_def fill_value_cases
        getitem_index_def iadd_row_def)
  have down: "encode_events time_to_frames ?tr 5 [] (np_ones 0 1) np_bool
      = Inr \<lparr>shape1 = 1, rows = replicate 215 [VBool False]\<rparr>"
    by (simp add: encode_events_def np_empty_fill_def pre f np_ones_def fill_value_cases)
  have hook: "beat_transform_annotation time_to_frames ?tr ?ann 5
      = Inr [''beat'' \<mapsto> Array \<lparr>shape1 = 1, rows = (replicate 215 [VBool False])[43 := [VBool True]]\<rparr>,
             ''downbeat'' \<mapsto> Array \<lparr>shape1 = 1, rows = replicate 215 [VBool False]\<rparr>,
             ''mask_downbeat'' \<mapsto> Flag False]"
    using assms(1)
    by (simp add: beat_transform_annotation_eq beat [unfolded One_nat_def] down [unfolded One_nat_def]
        cong: sum.case_cong)
  have valid: "map (\<lambda>t. time_to_frames t (sr ?tr) (hop_length ?tr))
                 (if ann_time ?ann = None \<or> ann_duration ?ann = None then [0, 5]
                  else [the (ann_time ?ann), the (ann_time ?ann) + the (ann_duration ?ann)])
               = [0, 215]"
    using assms(2) by (auto simp: pre f)
  have conv: "convert_loop convert ?tr [] [?ann] = Inr [?ann]"
    using assms(3) by (simp add: pre)
  have loop: "transform_loop time_to_frames (beat_transform_annotation time_to_frames ?tr) ?tr 5 [] [?ann]
      = Inr [[''beat'' \<mapsto> Array \<lparr>shape1 = 1, rows = (replicate 215 [VBool False])[43 := [VBool True]]\<rparr>,
               ''downbeat'' \<mapsto> Array \<lparr>shape1 = 1, rows = replicate 215 [VBool False]\<rparr>,
               ''mask_downbeat'' \<mapsto> Flag False,
               ''_valid'' \<mapsto> Frames [0, 215]]]"
    unfolding transform_loop.simps hook Let_def valid by simp
  have "transform time_to_frames convert search
           (beat_transform_annotation time_to_frames ?tr) merge ?tr
           \<lparr>annotations = [?ann], file_metadata_duration = 5\<rparr> None
         = Inr (merge ?tr
             [[''beat'' \<mapsto> Array \<lparr>shape1 = 1, rows = (replicate 215 [VBool False])[43 := [VBool True]]\<rparr>,
               ''downbeat'' \<mapsto> Array \<lparr>shape1 = 1, rows = replicate 215 [VBool False]\<rparr>,
               ''mask_downbeat'' \<mapsto> Flag False,
               ''_valid'' \<mapsto> Frames [0, 215]]])"
    unfolding transform_def candidates_def
    by (simp add: conv loop del: convert_loop.simps transform_loop.simps)
  moreover have "round (1 * 22050 / 512 :: rat) = 43" by code_simp
  moreover have "round (5 * 22050 / 512 :: rat) = 215" by code_simp
  ultimately show ?thesis by simp
qed

theorem beat_single_onset_scenario_witness:
  "transform time_to_frames convert_same search_all
     (beat_transform_annotation time_to_frames (BeatTransformer ''beat'' 22050 512)) merge_results
     (BeatTransformer ''beat'' 22050 512)
     \<lparr>annotations = [\<lparr>ann_namespace = ''beat'',
                        ann_data = [\<lparr>obs_time = 1, obs_duration = 0, obs_value = None\<rparr>],
                        ann_time = None, ann_duration = None\<rparr>],
      file_metadata_duration = 5\<rparr> None
   = Inr [[''beat'' \<mapsto> Array \<lparr>shape1 = 1, rows = (replicate 215 [VBool False])[43 := [VBool True]]\<rparr>,
           ''downbeat'' \<mapsto> Array \<lparr>shape1 = 1, rows = replicate 215 [VBool False]\<rparr>,
           ''mask_downbeat'' \<mapsto> Flag False,
           ''_valid'' \<mapsto> Frames [0, 215]]]
   \<and> (replicate 215 [VBool False])[43 := [VBool True]] ! 43 = [VBool True]
   \<and> (replicate 215 [VBool False])[43 := [VBool True]] ! 42 = [VBool False]"
  using beat_single_onset_scenario [where v = None and ?t0.0 = None and ?d0.0 = None and du = 0
      and convert = convert_same and search = search_all and merge = merge_results]
  by (simp add: convert_same_def merge_results_def)

section \<open>The orchestration of transform\<close>

text \<open>The conversion loop keeps the converted annotations in order and skips a NamespaceError.\<close>

lemma convert_loop_skip:
  "convert a (namespace self) = Inl NamespaceError \<Longrightarrow>
   convert_loop convert self anns (xs @ a # ys) = convert_loop convert self anns (xs @ ys)"
  by (induction xs arbitrary: anns) (simp_all split: sum.splits)

lemma convert_loop_none:
  "\<forall>c \<in> set cs. convert c (namespace self) = Inl NamespaceError \<Longrightarrow>
   convert_loop convert self anns cs = Inr anns"
  by (induction cs arbitrary: anns) simp_all

lemma convert_loop_returns:
  "\<forall>c \<in> set cs. convert c (namespace self) = Inl NamespaceError
       \<or> (\<exists>b. convert c (namespace self) = Inr b \<and> P b) \<Longrightarrow>
   list_all P anns \<Longrightarrow>
   \<exists>anns'. convert_loop convert self anns cs = Inr anns' \<and> list_all P anns'"
proof (induction cs arbitrary: anns)
  case Nil
  then show ?case by simp
next
  case (Cons c cs)
  from Cons.prems(1) consider "convert c (namespace self) = Inl NamespaceError"
    | b where "convert c (namespace self) = Inr b" "P b"
    by auto
  then show ?case
  proof cases
    case 1
    with Cons.IH[of anns] Cons.prems show ?thesis by simp
  next
    case 2
    with Cons.IH[of "anns @ [b]"] Cons.prems show ?thesis by simp
  qed
qed

lemma transform_loop_returns:
  "list_all (\<lambda>ann. \<exists>d. transform_annotation ann duration = Inr d) anns \<Longrightarrow>
   \<exists>results'. transform_loop ttf transform_annotation self duration results anns = Inr results'"
proof (induction anns arbitrary: results)
  case Nil
  then show ?case by simp
next
  case (Cons ann anns)
  from Cons.prems obtain d where d: "transform_annotation ann duration = Inr d" by auto
  from Cons.prems have "list_all (\<lambda>ann. \<exists>d. transform_annotation ann duration = Inr d) anns"
    by simp
  from Cons.IH[OF this] d show ?case by (simp add: Let_def)
qed

lemma transform_loop_empty_annotation:
  "transform_loop ttf transform_annotation self duration [] [empty_annotation self duration'] =
     (case transform_annotation (empty_annotation self duration') duration of
        Inl e \<Rightarrow> Inl e
      | Inr d \<Rightarrow> Inr [d(''_valid'' \<mapsto>
          Frames [ttf 0 (sr self) (hop_length self), ttf 0 (sr self) (hop_length self)])])"
  by (simp add: empty_annotation_def split: sum.splits)

text \<open>The beat transformer on the synthesized empty annotation: both fields are all False.\<close>

lemma beat_transform_annotation_empty:
  "0 \<le> ttf duration (sr self) (hop_length self) \<Longrightarrow>
   beat_transform_annotation ttf self (empty_annotation self duration') duration =
     Inr [''beat'' \<mapsto> Array \<lparr>shape1 = 1,
            rows = replicate (nat (ttf duration (sr self) (hop_length self))) [fill_value np_bool]\<rparr>,
          ''downbeat'' \<mapsto> Array \<lparr>shape1 = 1,
            rows = replicate (nat (ttf duration (sr self) (hop_length self))) [fill_value np_bool]\<rparr>,
          ''mask_downbeat'' \<mapsto> Flag False]"
  by (simp add: beat_transform_annotation_eq empty_annotation_def encode_events_def
      np_empty_fill_def np_ones_def)

text \<open>
  Claim C5. When no candidate converts to the target namespace, \<open>transform\<close> transforms
  exactly one synthesized annotation, the one \<open>empty\<close> returns: it has no observations,
  and its time and duration are both 0. The record still holds every label field (for
  the beat transformer: \<open>beat\<close> and \<open>downbeat\<close> of \<open>n_frames\<close> rows, all fill-valued, and
  \<open>mask_downbeat\<close> False), and its \<open>_valid\<close> range is the frame of time 0 twice: the
  range is empty, it does not reach the frame of the track duration.
\<close>

theorem transform_without_convertible_annotation:
  assumes "\<forall>c \<in> set (candidates search jam query). convert c (namespace self) = Inl NamespaceError"
  shows "transform ttf convert search transform_annotation merge self jam query =
          (case transform_annotation (empty_annotation self (file_metadata_duration jam))
                  (file_metadata_duration jam) of
             Inl e \<Rightarrow> Inl e
           | Inr d \<Rightarrow> Inr (merge self [d(''_valid'' \<mapsto>
               Frames [ttf 0 (sr self) (hop_length self), ttf 0 (sr self) (hop_length self)])]))
       \<and> (0 \<le> ttf (file_metadata_duration jam) (sr self) (hop_length self) \<longrightarrow>
          transform ttf convert search (beat_transform_annotation ttf self) merge self jam query =
            Inr (merge self
              [[''beat'' \<mapsto> Array \<lparr>shape1 = 1,
                   rows = replicate (nat (ttf (file_metadata_duration jam) (sr self) (hop_length self)))
                            [fill_value np_bool]\<rparr>,
                ''downbeat'' \<mapsto> Array \<lparr>shape1 = 1,
                   rows = replicate (nat (ttf (file_metadata_duration jam) (sr self) (hop_length self)))
                            [fill_value np_bool]\<rparr>,
                ''mask_downbeat'' \<mapsto> Flag False,
                ''_valid'' \<mapsto> Frames [ttf 0 (sr self) (hop_length self),
                                          ttf 0 (sr self) (hop_length self)]]]))"
proof -
  have general: "transform ttf convert search h merge self jam query =
          (case h (empty_annotation self (file_metadata_duration jam)) (file_metadata_duration jam) of
             Inl e \<Rightarrow> Inl e
           | Inr d \<Rightarrow> Inr (merge self [d(''_valid'' \<mapsto>
               Frames [ttf 0 (sr self) (hop_length self), ttf 0 (sr self) (hop_length self)])]))"
    for h
    unfolding transform_def
      convert_loop_none[where convert = convert and self = self and cs = "candidates search jam query", OF assms]
      Let_def
    by (simp add: transform_loop_empty_annotation split: sum.splits del: transform_loop.simps)
  show ?thesis
    by (intro conjI impI, rule general)
      (simp add: general beat_transform_annotation_empty)
qed


theorem transform_without_convertible_annotation_witness:
  "transform time_to_frames convert_same search_all
     (beat_transform_annotation time_to_frames (BeatTransformer ''beat'' 1000 100)) merge_results
     (BeatTransformer ''beat'' 1000 100)
     \<lparr>annotations = [\<lparr>ann_namespace = ''chord'', ann_data = [], ann_time = None, ann_duration = None\<rparr>],
      file_metadata_duration = 2\<rparr> None
   = Inr [[''beat'' \<mapsto> Array \<lparr>shape1 = 1, rows = replicate 20 [VBool False]\<rparr>,
           ''downbeat'' \<mapsto> Array \<lparr>shape1 = 1, rows = replicate 20 [VBool False]\<rparr>,
           ''mask_downbeat'' \<mapsto> Flag False,
           ''_valid'' \<mapsto> Frames [0, 0]]]"
  using transform_without_convertible_annotation [where ttf = time_to_frames
      and convert = convert_same and search = search_all and merge = merge_results
      and self = "BeatTransformer ''beat'' 1000 100" and query = None
      and jam = "\<lparr>annotations = [\<lparr>ann_namespace = ''chord'', ann_data = [], ann_time = None,
                                     ann_duration = None\<rparr>],
                   file_metadata_duration = 2\<rparr>", THEN conjunct2]
  by (simp add: candidates_def convert_same_def merge_results_def BeatTransformer_def
      time_to_frames_1000_100 fill_value_cases)

theorem transform_without_convertible_annotation_counterexample:
  "transform time_to_frames convert_same search_all
     (beat_transform_annotation time_to_frames (BeatTransformer ''beat'' 22050 512)) merge_results
     (BeatTransformer ''beat'' 22050 512)
     \<lparr>annotations = [], file_metadata_duration = 5\<rparr> None
   = Inr [[''beat'' \<mapsto> Array \<lparr>shape1 = 1, rows = replicate 215 [VBool False]\<rparr>,
           ''downbeat'' \<mapsto> Array \<lparr>shape1 = 1, rows = replicate 215 [VBool False]\<rparr>,
           ''mask_downbeat'' \<mapsto> Flag False,
           ''_valid'' \<mapsto> Frames [0, 0]]]
   \<and> time_to_frames 5 22050 512 = 215
   \<and> Frames [0, 0] \<noteq> Frames [0, time_to_frames 5 22050 512]"
proof -
  let ?tr = "BeatTransformer ''beat'' 22050 512"
  have pre: "sr ?tr = 22050" "hop_length ?tr = 512"
    by (simp_all add: BeatTransformer_def)
  have hook: "beat_transform_annotation time_to_frames ?tr (empty_annotation ?tr 5) 5 =
     Inr [''beat'' \<mapsto> Array \<lparr>shape1 = 1, rows = replicate 215 [VBool False]\<rparr>,
          ''downbeat'' \<mapsto> Array \<lparr>shape1 = 1, rows = replicate 215 [VBool False]\<rparr>,
          ''mask_downbeat'' \<mapsto> Flag False]"
    using beat_transform_annotation_empty [of time_to_frames 5 ?tr 5]
    by (simp add: pre time_to_frames_22050_512 fill_value_cases)
  have "transform time_to_frames convert_same search_all
     (beat_transform_annotation time_to_frames ?tr) merge_results ?tr
     \<lparr>annotations = [], file_metadata_duration = 5\<rparr> None
   = Inr [[''beat'' \<mapsto> Array \<lparr>shape1 = 1, rows = replicate 215 [VBool False]\<rparr>,
           ''downbeat'' \<mapsto> Array \<lparr>shape1 = 1, rows = replicate 215 [VBool False]\<rparr>,
           ''mask_downbeat'' \<mapsto> Flag False,
           ''_valid'' \<mapsto> Frames [0, 0]]]"
    unfolding transform_def candidates_def
    by (simp add: transform_loop_empty_annotation hook merge_results_def pre
        time_to_frames_22050_512 del: transform_loop.simps)
  then show ?thesis by (simp add: time_to_frames_22050_512)
qed

text \<open>
  Claim C7. A candidate whose conversion raises NamespaceError is left out and the
  remaining candidates are processed: \<open>transform\<close> returns what it returns on the
  candidates without that one. When every conversion either succeeds or raises
  NamespaceError, the conversion stage raises nothing: if the hook succeeds on the
  converted annotations and on the empty annotation, \<open>transform\<close> returns a record.
\<close>

theorem conversion_failure_is_absorbed:
  "(convert a (namespace self) = Inl NamespaceError
      \<and> candidates search jam query = xs @ a # ys
      \<and> candidates search jam' query' = xs @ ys
      \<and> file_metadata_duration jam' = file_metadata_duration jam
    \<longrightarrow> transform ttf convert search transform_annotation merge self jam query
        = transform ttf convert search transform_annotation merge self jam' query')
   \<and> ((\<forall>c \<in> set (candidates search jam query).
          convert c (namespace self) = Inl NamespaceError
        \<or> (\<exists>b. convert c (namespace self) = Inr b
              \<and> (\<exists>d. transform_annotation b (file_metadata_duration jam) = Inr d)))
      \<and> (\<exists>d. transform_annotation (empty_annotation self (file_metadata_duration jam))
                 (file_metadata_duration jam) = Inr d)
    \<longrightarrow> (\<exists>out. transform ttf convert search transform_annotation merge self jam query = Inr out))"
proof (intro conjI impI)
  assume a: "convert a (namespace self) = Inl NamespaceError
      \<and> candidates search jam query = xs @ a # ys
      \<and> candidates search jam' query' = xs @ ys
      \<and> file_metadata_duration jam' = file_metadata_duration jam"
  then have "convert_loop convert self [] (candidates search jam query)
           = convert_loop convert self [] (candidates search jam' query')"
    by (simp add: convert_loop_skip)
  with a show "transform ttf convert search transform_annotation merge self jam query
        = transform ttf convert search transform_annotation merge self jam' query'"
    by (simp add: transform_def cong: sum.case_cong)
next
  let ?duration = "file_metadata_duration jam"
  let ?P = "\<lambda>b. \<exists>d. transform_annotation b ?duration = Inr d"
  assume a: "(\<forall>c \<in> set (candidates search jam query).
          convert c (namespace self) = Inl NamespaceError
        \<or> (\<exists>b. convert c (namespace self) = Inr b
              \<and> (\<exists>d. transform_annotation b (file_metadata_duration jam) = Inr d)))
      \<and> (\<exists>d. transform_annotation (empty_annotation self (file_metadata_duration jam))
                 (file_metadata_duration jam) = Inr d)"
  from a have "\<forall>c \<in> set (candidates search jam query).
          convert c (namespace self) = Inl NamespaceError
        \<or> (\<exists>b. convert c (namespace self) = Inr b \<and> ?P b)"
    by blast
  from convert_loop_returns[where P = ?P and anns = "[]" and convert = convert and self = self
      and cs = "candidates search jam query", OF this]
  obtain anns where anns: "convert_loop convert self [] (candidates search jam query) = Inr anns"
    "list_all ?P anns"
    by auto
  let ?anns' = "if anns = [] then [empty_annotation self ?duration] else anns"
  have "list_all ?P ?anns'" using anns(2) a by simp
  from transform_loop_returns[where transform_annotation = transform_annotation
      and duration = ?duration and anns = ?anns' and ttf = ttf and self = self and results = "[]", OF this]
  obtain results where "transform_loop ttf transform_annotation self ?duration [] ?anns' = Inr results"
    by blast
  with anns(1) show "\<exists>out. transform ttf convert search transform_annotation merge self jam query = Inr out"
    by (simp add: transform_def Let_def del: transform_loop.simps)
qed


theorem conversion_failure_is_absorbed_witness:
  "transform time_to_frames convert_same search_all
     (beat_transform_annotation time_to_frames (BeatTransformer ''beat'' 1000 100)) merge_results
     (BeatTransformer ''beat'' 1000 100)
     \<lparr>annotations =
        [\<lparr>ann_namespace = ''chord'', ann_data = [], ann_time = None, ann_duration = None\<rparr>,
         \<lparr>ann_namespace = ''beat'',
          ann_data = [\<lparr>obs_time = 1 / 2, obs_duration = 0, obs_value = None\<rparr>],
          ann_time = None, ann_duration = None\<rparr>],
      file_metadata_duration = 2\<rparr> None
   = transform time_to_frames convert_same search_all
     (beat_transform_annotation time_to_frames (BeatTransformer ''beat'' 1000 100)) merge_results
     (BeatTransformer ''beat'' 1000 100)
     \<lparr>annotations =
        [\<lparr>ann_namespace = ''beat'',
          ann_data = [\<lparr>obs_time = 1 / 2, obs_duration = 0, obs_value = None\<rparr>],
          ann_time = None, ann_duration = None\<rparr>],
      file_metadata_duration = 2\<rparr> None
   \<and> transform time_to_frames convert_same search_all
     (beat_transform_annotation time_to_frames (BeatTransformer ''beat'' 1000 100)) merge_results
     (BeatTransformer ''beat'' 1000 100)
     \<lparr>annotations =
        [\<lparr>ann_namespace = ''chord'', ann_data = [], ann_time = None, ann_duration = None\<rparr>,
         \<lparr>ann_namespace = ''beat'',
          ann_data = [\<lparr>obs_time = 1 / 2, obs_duration = 0, obs_value = None\<rparr>],
          ann_time = None, ann_duration = None\<rparr>],
      file_metadata_duration = 2\<rparr> None
   = Inr [[''beat'' \<mapsto> Array \<lparr>shape1 = 1, rows = (replicate 20 [VBool False])[5 := [VBool True]]\<rparr>,
           ''downbeat'' \<mapsto> Array \<lparr>shape1 = 1, rows = replicate 20 [VBool False]\<rparr>,
           ''mask_downbeat'' \<mapsto> Flag False,
           ''_valid'' \<mapsto> Frames [0, 20]]]"
proof -
  let ?tr = "BeatTransformer ''beat'' 1000 100"
  let ?chord = "\<lparr>ann_namespace = ''chord'', ann_data = [], ann_time = None, ann_duration = None\<rparr>
    :: (rat option) annotation"
  let ?beat = "\<lparr>ann_namespace = ''beat'',
          ann_data = [\<lparr>obs_time = 1 / 2, obs_duration = 0, obs_value = None\<rparr>],
          ann_time = None, ann_duration = None\<rparr> :: (rat option) annotation"
  let ?jam = "\<lparr>annotations = [?chord, ?beat], file_metadata_duration = 2\<rparr>"
  let ?jam' = "\<lparr>annotations = [?beat], file_metadata_duration = 2\<rparr>"
  let ?hook = "beat_transform_annotation time_to_frames ?tr"
  have pre: "sr ?tr = 1000" "hop_length ?tr = 100" "namespace ?tr = ''beat''"
    by (simp_all add: BeatTransformer_def)
  note f = time_to_frames_1000_100
  have hook: "?hook ?beat 2 =
      Inr [''beat'' \<mapsto> Array \<lparr>shape1 = 1, rows = (replicate 20 [VBool False])[5 := [VBool True]]\<rparr>,
           ''downbeat'' \<mapsto> Array \<lparr>shape1 = 1, rows = replicate 20 [VBool False]\<rparr>,
           ''mask_downbeat'' \<mapsto> Flag False]"
    by (simp add: beat_transform_annotation_eq encode_events_def np_empty_fill_def pre f
        np_ones_def fill_value_cases getitem_index_def iadd_row_def)
  have eval: "transform time_to_frames convert_same search_all ?hook merge_results ?tr ?jam' None
      = Inr [[''beat'' \<mapsto> Array \<lparr>shape1 = 1, rows = (replicate 20 [VBool False])[5 := [VBool True]]\<rparr>,
           ''downbeat'' \<mapsto> Array \<lparr>shape1 = 1, rows = replicate 20 [VBool False]\<rparr>,
           ''mask_downbeat'' \<mapsto> Flag False,
           ''_valid'' \<mapsto> Frames [0, 20]]]"
    unfolding transform_def candidates_def
    by (simp add: convert_same_def merge_results_def pre f hook)
  have eq: "transform time_to_frames convert_same search_all ?hook merge_results ?tr ?jam None
      = transform time_to_frames convert_same search_all ?hook merge_results ?tr ?jam' None"
    using conversion_failure_is_absorbed [where convert = convert_same and self = ?tr
        and a = ?chord and xs = "[]" and ys = "[?beat]" and search = search_all
        and jam = ?jam and jam' = ?jam' and query = None and query' = None
        and ttf = time_to_frames and transform_annotation = ?hook and merge = merge_results,
        THEN conjunct1]
    by (simp add: candidates_def convert_same_def pre)
  have empty: "\<exists>d. ?hook (empty_annotation ?tr 2) 2 = Inr d"
    using beat_transform_annotation_empty [of time_to_frames 2 ?tr 2]
    by (simp add: pre f)
  have ex: "\<exists>out. transform time_to_frames convert_same search_all ?hook merge_results ?tr ?jam None
      = Inr out"
    using conversion_failure_is_absorbed [where convert = convert_same and self = ?tr
        and search = search_all and jam = ?jam and query = None
        and ttf = time_to_frames and transform_annotation = ?hook and merge = merge_results,
        THEN conjunct2] hook empty
    by (simp add: candidates_def convert_same_def pre)
  from eq eval ex show ?thesis by simp
qed

section \<open>The STFT variants\<close>

lemma STFT_init_eq:
  "STFT_init nm sr' hop n =
     Inr \<lparr>fx_name = nm, fx_sr = sr', fx_hop_length = hop, n_fft = n,
          fx_fields = [''mag'' \<mapsto> \<lparr>field_shape = [None, Some (1 + n div 2)], field_dtype = np_float32\<rparr>,
                       ''phase'' \<mapsto> \<lparr>field_shape = [None, Some (1 + n div 2)], field_dtype = np_float32\<rparr>]\<rparr>"
  by (simp add: STFT_init_def register_def)

lemma STFT_transform_audio_Inr:
  "STFT_transform_audio lib self y = Inr data \<Longrightarrow>
   \<exists>mag phase. data = [''mag'' \<mapsto> mag, ''phase'' \<mapsto> phase]"
  by (auto simp: STFT_transform_audio_def split: sum.splits)

text \<open>
  Claim C9. When the parent \<open>STFT.transform_audio\<close> returns a mapping,
  \<open>STFTMag.transform_audio\<close> returns a mapping whose only key is \<open>mag\<close>, and
  \<open>STFTPhaseDiff.transform_audio\<close> returns a mapping with the keys \<open>mag\<close> and \<open>dphase\<close>,
  where \<open>dphase\<close> is the phase difference of the parent's \<open>phase\<close> entry along axis 0;
  in both the \<open>mag\<close> entry is the parent's. When the parent raises, both raise the same
  exception. In the schema of \<open>STFTPhaseDiff\<close> the field \<open>dphase\<close> has the shape and
  dtype that \<open>phase\<close> has in the schema of \<open>STFT\<close>, and \<open>phase\<close> is gone; the schema of
  \<open>STFTMag\<close> holds \<open>mag\<close> only.
\<close>

theorem stft_variants_drop_or_replace_phase:
  "(case STFT_transform_audio lib self y of
      Inl e \<Rightarrow> STFTMag_transform_audio lib self y = Inl e
              \<and> STFTPhaseDiff_transform_audio lib self y = Inl e
    | Inr data \<Rightarrow>
        (\<exists>m. STFTMag_transform_audio lib self y = Inr m
             \<and> dom m = {''mag''} \<and> m ''mag'' = data ''mag'')
      \<and> (\<exists>p phase. STFTPhaseDiff_transform_audio lib self y = Inr p
             \<and> dom p = {''mag'', ''dphase''} \<and> p ''mag'' = data ''mag''
             \<and> data ''phase'' = Some phase
             \<and> p ''dphase'' = Some (phase_diff lib phase 0)))
   \<and> (\<exists>s pd mg.
         STFT_init nm sr' hop n = Inr s
       \<and> STFTPhaseDiff_init nm sr' hop n = Inr pd
       \<and> STFTMag_init nm sr' hop n = Inr mg
       \<and> dom (fx_fields s) = {''mag'', ''phase''}
       \<and> dom (fx_fields pd) = {''mag'', ''dphase''}
       \<and> fx_fields pd ''dphase'' = fx_fields s ''phase''
       \<and> fx_fields pd ''mag'' = fx_fields s ''mag''
       \<and> dom (fx_fields mg) = {''mag''}
       \<and> fx_fields mg ''mag'' = fx_fields s ''mag'')"
proof (rule conjI)
  show "case STFT_transform_audio lib self y of
      Inl e \<Rightarrow> STFTMag_transform_audio lib self y = Inl e
              \<and> STFTPhaseDiff_transform_audio lib self y = Inl e
    | Inr data \<Rightarrow>
        (\<exists>m. STFTMag_transform_audio lib self y = Inr m
             \<and> dom m = {''mag''} \<and> m ''mag'' = data ''mag'')
      \<and> (\<exists>p phase. STFTPhaseDiff_transform_audio lib self y = Inr p
             \<and> dom p = {''mag'', ''dphase''} \<and> p ''mag'' = data ''mag''
             \<and> data ''phase'' = Some phase
             \<and> p ''dphase'' = Some (phase_diff lib phase 0))"
  proof (cases "STFT_transform_audio lib self y")
    case (Inl e)
    then show ?thesis
      by (simp add: STFTMag_transform_audio_def STFTPhaseDiff_transform_audio_def)
  next
    case (Inr data)
    from STFT_transform_audio_Inr[OF Inr] obtain mag phase
      where data: "data = [''mag'' \<mapsto> mag, ''phase'' \<mapsto> phase]" by blast
    have pop: "dict_pop data ''phase'' = Inr (phase, data(''phase'' := None))"
      by (simp add: dict_pop_def data)
    have m: "STFTMag_transform_audio lib self y = Inr (data(''phase'' := None))"
      by (simp add: STFTMag_transform_audio_def Inr pop)
    have p: "STFTPhaseDiff_transform_audio lib self y =
        Inr ((data(''phase'' := None))(''dphase'' \<mapsto> phase_diff lib phase 0))"
      by (simp add: STFTPhaseDiff_transform_audio_def Inr pop)
    have "dom (data(''phase'' := None)) = {''mag''}"
      by (simp add: data)
    moreover have "dom ((data(''phase'' := None))(''dphase'' \<mapsto> phase_diff lib phase 0)) = {''mag'', ''dphase''}"
      by (simp add: data insert_commute)
    ultimately show ?thesis
      unfolding Inr sum.case m p by (simp add: data)
  qed
next
  let ?f = "\<lparr>field_shape = [None, Some (1 + n div 2)], field_dtype = np_float32\<rparr>"
  let ?s = "\<lparr>fx_name = nm, fx_sr = sr', fx_hop_length = hop, n_fft = n,
          fx_fields = [''mag'' \<mapsto> ?f, ''phase'' \<mapsto> ?f]\<rparr>"
  have pd: "STFTPhaseDiff_init nm sr' hop n =
      Inr (?s\<lparr>fx_fields := ([''mag'' \<mapsto> ?f, ''phase'' \<mapsto> ?f](''phase'' := None))(''dphase'' \<mapsto> ?f)\<rparr>)"
    by (simp add: STFTPhaseDiff_init_def STFT_init_eq pop_def register_def)
  have mg: "STFTMag_init nm sr' hop n =
      Inr (?s\<lparr>fx_fields := [''mag'' \<mapsto> ?f, ''phase'' \<mapsto> ?f](''phase'' := None)\<rparr>)"
    by (simp add: STFTMag_init_def STFT_init_eq pop_def)
  show "\<exists>s pd mg.
         STFT_init nm sr' hop n = Inr s
       \<and> STFTPhaseDiff_init nm sr' hop n = Inr pd
       \<and> STFTMag_init nm sr' hop n = Inr mg
       \<and> dom (fx_fields s) = {''mag'', ''phase''}
       \<and> dom (fx_fields pd) = {''mag'', ''dphase''}
       \<and> fx_fields pd ''dphase'' = fx_fields s ''phase''
       \<and> fx_fields pd ''mag'' = fx_fields s ''mag''
       \<and> dom (fx_fields mg) = {''mag''}
       \<and> fx_fields mg ''mag'' = fx_fields s ''mag''"
    unfolding STFT_init_eq pd mg
    by (intro exI conjI, rule refl, rule refl, rule refl) (simp_all add: insert_commute)
qed

theorem stft_variants_drop_or_replace_phase_witness:
  "(\<exists>m. STFTMag_transform_audio stub_dsp
           \<lparr>fx_name = ''stft'', fx_sr = 22050, fx_hop_length = 512, n_fft = 1024, fx_fields = Map.empty\<rparr>
           [3, - 4, 0] = Inr m
        \<and> dom m = {''mag''} \<and> m ''mag'' = Some [3, 4, 0])
   \<and> (\<exists>p. STFTPhaseDiff_transform_audio stub_dsp
           \<lparr>fx_name = ''stft'', fx_sr = 22050, fx_hop_length = 512, n_fft = 1024, fx_fields = Map.empty\<rparr>
           [3, - 4, 0] = Inr p
        \<and> dom p = {''mag'', ''dphase''} \<and> p ''mag'' = Some [3, 4, 0]
        \<and> p ''dphase'' = Some [- 2, 1])
   \<and> STFTMag_transform_audio stub_dsp
           \<lparr>fx_name = ''stft'', fx_sr = 22050, fx_hop_length = 512, n_fft = 1024, fx_fields = Map.empty\<rparr>
           [] = Inl ValueError
   \<and> (\<exists>pd. STFTPhaseDiff_init ''stft'' 22050 512 1024 = Inr pd
        \<and> fx_fields pd ''dphase'' = Some \<lparr>field_shape = [None, Some 513], field_dtype = np_float32\<rparr>
        \<and> fx_fields pd ''phase'' = None)"
proof -
  let ?self = "\<lparr>fx_name = ''stft'', fx_sr = 22050, fx_hop_length = 512, n_fft = 1024, fx_fields = Map.empty\<rparr>"
  have parent: "STFT_transform_audio stub_dsp ?self [3, - 4, 0]
      = Inr [''mag'' \<mapsto> [3, 4, 0], ''phase'' \<mapsto> [1, - 1, 0]]"
    by (simp add: STFT_transform_audio_def stub_dsp_def)
  have parent': "STFT_transform_audio stub_dsp ?self [] = Inl ValueError"
    by (simp add: STFT_transform_audio_def stub_dsp_def)
  have pdiff: "phase_diff stub_dsp [1, - 1, 0] 0 = [- 2, 1]"
    by (simp add: stub_dsp_def)
  note th = stft_variants_drop_or_replace_phase
  from th [where lib = stub_dsp and self = ?self and y = "[3, - 4, 0]", THEN conjunct1]
  have a: "(\<exists>m. STFTMag_transform_audio stub_dsp ?self [3, - 4, 0] = Inr m
             \<and> dom m = {''mag''} \<and> m ''mag'' = Some [3, 4, 0])
      \<and> (\<exists>p. STFTPhaseDiff_transform_audio stub_dsp ?self [3, - 4, 0] = Inr p
             \<and> dom p = {''mag'', ''dphase''} \<and> p ''mag'' = Some [3, 4, 0]
             \<and> p ''dphase'' = Some [- 2, 1])"
    unfolding parent sum.case by (simp add: pdiff)
  from th [where lib = stub_dsp and self = ?self and y = "[]", THEN conjunct1]
  have b: "STFTMag_transform_audio stub_dsp ?self [] = Inl ValueError"
    unfolding parent' sum.case by simp
  from th [where nm = "''stft''" and sr' = 22050 and hop = 512 and n = 1024, THEN conjunct2]
  obtain s pd mg where h:
    "STFT_init ''stft'' 22050 512 1024 = Inr s
       \<and> STFTPhaseDiff_init ''stft'' 22050 512 1024 = Inr pd
       \<and> STFTMag_init ''stft'' 22050 512 1024 = Inr mg
       \<and> dom (fx_fields s) = {''mag'', ''phase''}
       \<and> dom (fx_fields pd) = {''mag'', ''dphase''}
       \<and> fx_fields pd ''dphase'' = fx_fields s ''phase''
       \<and> fx_fields pd ''mag'' = fx_fields s ''mag''
       \<and> dom (fx_fields mg) = {''mag''}
       \<and> fx_fields mg ''mag'' = fx_fields s ''mag''"
    by (elim exE) (rule that)
  note s = h [THEN conjunct1]
  note pd = h [THEN conjunct2, THEN conjunct1]
  note d = h [THEN conjunct2, THEN conjunct2, THEN conjunct2, THEN conjunct2, THEN conjunct1]
  note e = h [THEN conjunct2, THEN conjunct2, THEN conjunct2, THEN conjunct2, THEN conjunct2, THEN conjunct1]
  from s [unfolded STFT_init_eq sum.inject, symmetric]
  have sp: "fx_fields s ''phase'' = Some \<lparr>field_shape = [None, Some 513], field_dtype = np_float32\<rparr>"
    by simp
  have "''phase'' \<notin> dom (fx_fields pd)"
    unfolding d by simp
  then have np: "fx_fields pd ''phase'' = None"
    by (simp add: domIff)
  have c: "\<exists>pd. STFTPhaseDiff_init ''stft'' 22050 512 1024 = Inr pd
        \<and> fx_fields pd ''dphase'' = Some \<lparr>field_shape = [None, Some 513], field_dtype = np_float32\<rparr>
        \<and> fx_fields pd ''phase'' = None"
    apply (rule exI [of _ pd])
    using pd e sp np apply simp
    done
  from a b c show ?thesis by simp
qed

end
